theory Spec2Isabelle
  imports Main "HOL-Library.Word" "HOL-Library.Sublist" "HOL-Library.AList"
begin

section \<open>JavaScript values and strings\<close>

text \<open>
  Values produced by \<^verbatim>\<open>JSON.parse\<close>. Numbers are kept as integers: request identifiers
  are the only numbers the client inspects. An object is the list of its own properties.
\<close>

datatype json =
    JNull
  | JBool bool
  | JNum int
  | JStr string
  | JArr "json list"
  | JObj "(string \<times> json) list"

text \<open>
  Property access \<^verbatim>\<open>v.key\<close>. \<^verbatim>\<open>None\<close> on the outside is the \<^verbatim>\<open>TypeError\<close> raised on
  \<^verbatim>\<open>null\<close>; \<^verbatim>\<open>None\<close> on the inside is \<^verbatim>\<open>undefined\<close>. None of the keys the client reads
  (\<^verbatim>\<open>id\<close>, \<^verbatim>\<open>error\<close>, \<^verbatim>\<open>message\<close>, \<^verbatim>\<open>result\<close>, \<^verbatim>\<open>method\<close>, \<^verbatim>\<open>serverInfo\<close>, \<^verbatim>\<open>tools\<close>)
  is inherited from a prototype, so primitives and arrays answer \<^verbatim>\<open>undefined\<close>.
\<close>

fun field :: "json \<Rightarrow> string \<Rightarrow> json option option" where
  "field JNull k = None"
| "field (JObj fs) k = Some (map_of fs k)"
| "field v k = Some None"

text \<open>Truthiness of a value that may be \<^verbatim>\<open>undefined\<close>.\<close>

fun truthy :: "json option \<Rightarrow> bool" where
  "truthy None = False"
| "truthy (Some JNull) = False"
| "truthy (Some (JBool b)) = b"
| "truthy (Some (JNum n)) = (n \<noteq> 0)"
| "truthy (Some (JStr s)) = (s \<noteq> [])"
| "truthy (Some (JArr xs)) = True"
| "truthy (Some (JObj fs)) = True"

subsection \<open>Strings of the tool registry\<close>

text \<open>\<^verbatim>\<open>s.split(c)\<close> for a one-character separator, \<^verbatim>\<open>parts.join(sep)\<close> and \<^verbatim>\<open>s.includes(t)\<close>.\<close>

fun split :: "char \<Rightarrow> string \<Rightarrow> string list" where
  "split c [] = [[]]"
| "split c (x # xs) =
     (if x = c then [] # split c xs
      else (case split c xs of [] \<Rightarrow> [[x]] | p # ps \<Rightarrow> (x # p) # ps))"

fun join :: "string \<Rightarrow> string list \<Rightarrow> string" where
  "join sep [] = []"
| "join sep [p] = p"
| "join sep (p # q # ps) = p @ sep @ join sep (q # ps)"

fun str_includes :: "'a list \<Rightarrow> 'a list \<Rightarrow> bool" where
  "str_includes [] t = (t = [])"
| "str_includes (x # xs) t = (prefix t (x # xs) \<or> str_includes xs t)"

subsection \<open>Buffers and decoded text\<close>

text \<open>
  A chunk read from a pipe is a \<^verbatim>\<open>Buffer\<close> of bytes; \<^verbatim>\<open>data.toString()\<close> decodes it as
  UTF-8 into a JavaScript string, a sequence of UTF-16 code units. The decoder replaces
  every ill-formed or truncated sequence by U+FFFD and keeps no state between two calls.
  The state is the code point so far, the number of continuation bytes still needed and
  the range allowed for the next byte.
\<close>

type_synonym bytes = "8 word list"
type_synonym jsstr = "16 word list"

fun utf8_decode :: "nat \<times> nat \<times> nat \<times> nat \<Rightarrow> bytes \<Rightarrow> nat list" where
  "utf8_decode (cp, need, lo, hi) [] = (if need = 0 then [] else [0xFFFD])"
| "utf8_decode (cp, need, lo, hi) (b # bs) =
     (let v = unat b in
      if need = 0 then
        (if v \<le> 0x7F then v # utf8_decode (0, 0, 0x80, 0xBF) bs
         else if 0xC2 \<le> v \<and> v \<le> 0xDF then utf8_decode (v mod 32, 1, 0x80, 0xBF) bs
         else if 0xE0 \<le> v \<and> v \<le> 0xEF then
           utf8_decode (v mod 16, 2, if v = 0xE0 then 0xA0 else 0x80,
                        if v = 0xED then 0x9F else 0xBF) bs
         else if 0xF0 \<le> v \<and> v \<le> 0xF4 then
           utf8_decode (v mod 8, 3, if v = 0xF0 then 0x90 else 0x80,
                        if v = 0xF4 then 0x8F else 0xBF) bs
         else 0xFFFD # utf8_decode (0, 0, 0x80, 0xBF) bs)
      else if v < lo \<or> hi < v then 0xFFFD # utf8_decode (0, 0, 0x80, 0xBF) (b # bs)
      else if need = 1 then (cp * 64 + v mod 64) # utf8_decode (0, 0, 0x80, 0xBF) bs
      else utf8_decode (cp * 64 + v mod 64, need - 1, 0x80, 0xBF) bs)"

definition utf16 :: "nat \<Rightarrow> jsstr" where
  "utf16 c =
     (if c < 0x10000 then [of_nat c]
      else [of_nat (0xD800 + (c - 0x10000) div 1024), of_nat (0xDC00 + (c - 0x10000) mod 1024)])"

definition toString :: "bytes \<Rightarrow> jsstr" where
  "toString data = concat (map utf16 (utf8_decode (0, 0, 0x80, 0xBF) data))"

text \<open>A string literal of the source as code units.\<close>

definition js :: "string \<Rightarrow> jsstr" where
  "js s = map of_char s"

text \<open>\<^verbatim>\<open>buffer.indexOf(c)\<close>, with \<^verbatim>\<open>None\<close> for -1.\<close>

fun indexOf :: "'a list \<Rightarrow> 'a \<Rightarrow> nat option" where
  "indexOf [] c = None"
| "indexOf (x # xs) c = (if x = c then Some 0 else map_option Suc (indexOf xs c))"

text \<open>\<^verbatim>\<open>String.prototype.trim\<close>: white space and line terminators of ECMAScript.\<close>

definition js_space :: "16 word \<Rightarrow> bool" where
  "js_space u \<longleftrightarrow>
     u \<in> {0x09, 0x0A, 0x0B, 0x0C, 0x0D, 0x20, 0xA0, 0x1680, 0x2028, 0x2029, 0x202F, 0x205F,
          0x3000, 0xFEFF} \<or> (0x2000 \<le> u \<and> u \<le> 0x200A)"

definition trim :: "jsstr \<Rightarrow> jsstr" where
  "trim s = rev (dropWhile js_space (rev (dropWhile js_space s)))"

section \<open>The process wrapper \<^verbatim>\<open>MCPClient\<close>\<close>

text \<open>
  A JavaScript number is a double. \<^verbatim>\<open>this.requestId++\<close> is exact below \<open>2 ^ 53\<close>; at
  \<open>2 ^ 53\<close> the sum rounds back to \<open>2 ^ 53\<close> (ties to even), and above it the spacing of
  doubles is at least two. The argument is the exact value of a representable counter.
\<close>

definition js_succ :: "nat \<Rightarrow> nat" where
  "js_succ n =
     (if n < 2 ^ 53 then n + 1
      else if n < 2 ^ 54 \<and> odd (n div 2) then n + 2
      else n)"

type_synonym pid = nat

text \<open>One line written to a child's standard input: \<^verbatim>\<open>{jsonrpc: '2.0', id, method, params?}\<close>.\<close>

record request =
  req_id :: nat
  req_method :: string
  req_params :: "json option"

text \<open>The \<^verbatim>\<open>Error\<close> values the client library throws or rejects with.\<close>

datatype error =
    ClientNotConnected string
  | RequestFailed json
  | RequestTimeout string
  | InitializeTimeout string
  | ProcessError
  | TypeError
  | UnknownServer string
  | ServerNotConnected string
  | FallbackNotImplemented string

text \<open>
  What a wrapper does to the outside: processes started and killed, lines written, promise
  continuations called (\<open>'k\<close> names the \<^verbatim>\<open>{resolve, reject}\<close> pair of one promise), and
  the two console lines of the message path.
\<close>

datatype 'k effect =
    Spawn pid
  | Kill pid
  | Write pid request
  | Resolve 'k "json option"
  | Reject 'k error
  | Received json
  | ParseFailed jsstr

text \<open>The \<^verbatim>\<open>setTimeout\<close> callbacks, each with what its closure captured.\<close>

datatype 'k timer =
    InitializeTimer pid
  | StdioTimer pid
  | StartTimeout pid
  | RequestTimer nat 'k


text \<open>
  One call of \<^verbatim>\<open>connect\<close> that got past the guard: the child it spawned, its local flag
  \<^verbatim>\<open>initialized\<close>, the continuations of its promise, and the \<^verbatim>\<open>buffer\<close> of every codec
  listener attached to the child's standard output, in the order of registration.
  The process identifier of a child is its index in the list of children.
\<close>

record 'k child =
  initialized :: bool
  connecting :: 'k
  codecs :: "jsstr list"
  exited :: bool

text \<open>The fields of the class.\<close>

record 'k MCPClient =
  serverName :: string
  process :: "pid option"
  isConnected :: bool
  requestId :: nat
  pendingRequests :: "nat \<rightharpoonup> 'k"

text \<open>The wrapper together with its children, its armed timers and what it has done so far.\<close>

record 'k runtime = "'k MCPClient" +
  children :: "'k child list"
  timers :: "'k timer list"
  effects :: "'k effect list"

definition new_MCPClient :: "string \<Rightarrow> 'k MCPClient" where
  "new_MCPClient n =
     \<lparr>serverName = n, process = None, isConnected = False, requestId = 1,
      pendingRequests = Map.empty\<rparr>"

definition boot :: "string \<Rightarrow> 'k runtime" where
  "boot n = MCPClient.extend (new_MCPClient n) \<lparr>children = [], timers = [], effects = []\<rparr>"

definition emit :: "'k effect list \<Rightarrow> ('k, 'z) runtime_scheme \<Rightarrow> ('k, 'z) runtime_scheme" where
  "emit es w = w\<lparr>effects := effects w @ es\<rparr>"

definition at_child ::
  "pid \<Rightarrow> ('k child \<Rightarrow> 'k child) \<Rightarrow> ('k, 'z) runtime_scheme \<Rightarrow> ('k, 'z) runtime_scheme" where
  "at_child p f w =
     (if p < length (children w) then w\<lparr>children := (children w)[p := f (children w ! p)]\<rparr>
      else w)"

subsection \<open>Messages\<close>

text \<open>\<^verbatim>\<open>this.pendingRequests.has(message.id)\<close>: the keys of the map are numbers.\<close>

fun pending_key :: "json option \<Rightarrow> nat option" where
  "pending_key (Some (JNum n)) = (if 0 \<le> n then Some (nat n) else None)"
| "pending_key v = None"

definition has_pending :: "(nat \<rightharpoonup> 'k) \<Rightarrow> json option \<Rightarrow> bool" where
  "has_pending m v = (case pending_key v of None \<Rightarrow> False | Some i \<Rightarrow> m i \<noteq> None)"

text \<open>\<^verbatim>\<open>message.error.message || 'MCP request failed'\<close>, for a truthy \<^verbatim>\<open>message.error\<close>.\<close>

definition failure_text :: "json option \<Rightarrow> json" where
  "failure_text e =
     (case e of None \<Rightarrow> JStr ''MCP request failed''
      | Some ev \<Rightarrow>
         (case field ev ''message'' of
            Some (Some t) \<Rightarrow> if truthy (Some t) then t else JStr ''MCP request failed''
          | _ \<Rightarrow> JStr ''MCP request failed''))"

text \<open>The test of the last statement of \<^verbatim>\<open>handleMessage\<close>, on a message that is not \<^verbatim>\<open>null\<close>.\<close>

definition announces_server :: "json \<Rightarrow> bool" where
  "announces_server message \<longleftrightarrow>
     the (field message ''method'') = Some (JStr ''initialize'')
     \<or> (truthy (the (field message ''result''))
        \<and> truthy (the (field (the (the (field message ''result''))) ''serverInfo'')))"

text \<open>
  \<^verbatim>\<open>handleMessage\<close>. The second component is the exception that left the method, if any:
  \<^verbatim>\<open>message.id\<close> on \<^verbatim>\<open>null\<close>, after the console line.
\<close>

definition handleMessage ::
  "json \<Rightarrow> ('k, 'z) runtime_scheme \<Rightarrow> ('k, 'z) runtime_scheme \<times> error option" where
  "handleMessage message w =
     (let w0 = emit [Received message] w in
      case field message ''id'' of
        None \<Rightarrow> (w0, Some TypeError)
      | Some mid \<Rightarrow>
          let w1 =
                (if truthy mid \<and> has_pending (pendingRequests w0) mid then
                   (case pending_key mid of
                      None \<Rightarrow> w0
                    | Some i \<Rightarrow>
                        (case pendingRequests w0 i of
                           None \<Rightarrow> w0
                         | Some k \<Rightarrow>
                             let w' = w0\<lparr>pendingRequests := (pendingRequests w0)(i := None)\<rparr>;
                                 e = the (field message ''error'')
                             in if truthy e then emit [Reject k (RequestFailed (failure_text e))] w'
                                else emit [Resolve k (the (field message ''result''))] w'))
                 else w0)
          in if announces_server message then (w1\<lparr>isConnected := True\<rparr>, None)
             else (w1, None))"

subsection \<open>The line codec\<close>

text \<open>
  The \<^verbatim>\<open>while\<close> loop of the listener \<^verbatim>\<open>setupMessageHandling\<close> registers, on its local
  \<^verbatim>\<open>buffer\<close>: cut at the first line feed, trim, hand a non-empty line to \<^verbatim>\<open>JSON.parse\<close>
  and the message to \<^verbatim>\<open>handleMessage\<close>; an exception of either is caught and printed.
  \<^verbatim>\<open>JSON.parse\<close> is the parameter \<open>parse\<close>, \<^verbatim>\<open>None\<close> where it throws.
\<close>

function drain ::
  "(jsstr \<Rightarrow> json option) \<Rightarrow> jsstr \<Rightarrow> ('k, 'z) runtime_scheme \<Rightarrow> jsstr \<times> ('k, 'z) runtime_scheme"
  where
  "drain parse buffer w =
     (case indexOf buffer 0x0A of
        None \<Rightarrow> (buffer, w)
      | Some newlineIndex \<Rightarrow>
          let line = trim (take newlineIndex buffer);
              buffer' = drop (newlineIndex + 1) buffer;
              w' = (if line \<noteq> [] then
                      (case parse line of
                         None \<Rightarrow> emit [ParseFailed line] w
                       | Some message \<Rightarrow>
                           (case handleMessage message w of
                              (w1, None) \<Rightarrow> w1
                            | (w1, Some e) \<Rightarrow> emit [ParseFailed line] w1))
                    else w)
          in drain parse buffer' w')"
  by pat_completeness auto
termination
proof -
  have shorter: "n < length xs" if "indexOf xs c = Some n" for xs :: jsstr and c n
    using that by (induction xs arbitrary: n) (auto split: if_splits)
  show ?thesis
    by (relation "measure (\<lambda>(parse, buffer, w). length buffer)") (auto dest: shorter)
qed

declare drain.simps [simp del]

text \<open>The listener itself, for the codec with index \<open>i\<close> on the child \<open>p\<close>.\<close>

definition codec_data ::
  "(jsstr \<Rightarrow> json option) \<Rightarrow> pid \<Rightarrow> nat \<Rightarrow> bytes \<Rightarrow> ('k, 'z) runtime_scheme \<Rightarrow> ('k, 'z) runtime_scheme"
  where
  "codec_data parse p i data w =
     (if p < length (children w) \<and> i < length (codecs (children w ! p)) then
        (case drain parse (codecs (children w ! p) ! i @ toString data) w of
           (buffer', w') \<Rightarrow> at_child p (\<lambda>c. c\<lparr>codecs := (codecs c)[i := buffer']\<rparr>) w')
      else w)"

text \<open>\<^verbatim>\<open>setupMessageHandling\<close>: one more listener, with an empty buffer, on the current process.\<close>

definition setupMessageHandling :: "('k, 'z) runtime_scheme \<Rightarrow> ('k, 'z) runtime_scheme" where
  "setupMessageHandling w =
     (case process w of
        None \<Rightarrow> w
      | Some p \<Rightarrow> at_child p (\<lambda>c. c\<lparr>codecs := codecs c @ [[]]\<rparr>) w)"

subsection \<open>Connecting\<close>

text \<open>The readiness markers both output listeners of \<^verbatim>\<open>connect\<close> look for.\<close>

definition ready_marker :: "jsstr \<Rightarrow> bool" where
  "ready_marker output \<longleftrightarrow>
     str_includes output (js ''initialized'') \<or> str_includes output (js ''Excel MCP Server'')
     \<or> str_includes output (js ''Stdio mode'')"

text \<open>
  \<^verbatim>\<open>connect\<close>: the guard, then the body of the promise, which runs at once: spawn, the
  listeners, \<^verbatim>\<open>setupMessageHandling\<close>, and the two timers. A call on a connected wrapper
  returns, which resolves its promise.
\<close>

definition connect :: "'k \<Rightarrow> 'k runtime \<Rightarrow> 'k runtime" where
  "connect k w =
     (if isConnected w then emit [Resolve k None] w
      else
        let p = length (children w);
            w1 = emit [Spawn p]
                   (w\<lparr>process := Some p,
                      children := children w
                        @ [\<lparr>initialized = False, connecting = k, codecs = [], exited = False\<rparr>]\<rparr>);
            w2 = setupMessageHandling w1
        in w2\<lparr>timers := timers w2 @ [InitializeTimer p, StartTimeout p]\<rparr>)"

text \<open>
  The listener on the standard error of the child \<open>p\<close>, which is also the first listener on
  its standard output.
\<close>

definition marker_data :: "pid \<Rightarrow> bytes \<Rightarrow> 'k runtime \<Rightarrow> 'k runtime" where
  "marker_data p data w =
     (if p < length (children w) \<and> ready_marker (toString data)
         \<and> \<not> initialized (children w ! p) then
        let w1 = setupMessageHandling (at_child p (\<lambda>c. c\<lparr>initialized := True\<rparr>) w)
        in emit [Resolve (connecting (children w ! p)) None] (w1\<lparr>isConnected := True\<rparr>)
      else w)"

text \<open>
  A chunk on the standard output of \<open>p\<close> goes to the listeners registered when it is
  emitted: the marker listener, then every codec. A codec that the marker listener adds
  during the emit does not see this chunk.
\<close>

definition stdout_data ::
  "(jsstr \<Rightarrow> json option) \<Rightarrow> pid \<Rightarrow> bytes \<Rightarrow> 'k runtime \<Rightarrow> 'k runtime" where
  "stdout_data parse p data w =
     (if p < length (children w) then
        fold (\<lambda>i. codec_data parse p i data) [0..<length (codecs (children w ! p))]
          (marker_data p data w)
      else w)"

definition process_error :: "pid \<Rightarrow> 'k runtime \<Rightarrow> 'k runtime" where
  "process_error p w =
     (if p < length (children w) \<and> \<not> initialized (children w ! p)
      then emit [Reject (connecting (children w ! p)) ProcessError] w
      else w)"

definition process_close :: "pid \<Rightarrow> 'k runtime \<Rightarrow> 'k runtime" where
  "process_close p w =
     (if p < length (children w) then
        (at_child p (\<lambda>c. c\<lparr>exited := True\<rparr>) w)\<lparr>isConnected := False, process := None\<rparr>
      else w)"

text \<open>The parameters of the \<^verbatim>\<open>initialize\<close> request.\<close>

definition initialize_params :: json where
  "initialize_params =
     JObj [(''protocolVersion'', JStr ''2024-11-05''),
           (''capabilities'', JObj [(''tools'', JObj [])]),
           (''clientInfo'', JObj [(''name'', JStr ''chatbot-ui''), (''version'', JStr ''1.0.0'')])]"

text \<open>The callback armed for one second after the spawn.\<close>

definition initialize_timer :: "pid \<Rightarrow> 'k runtime \<Rightarrow> 'k runtime" where
  "initialize_timer p w =
     (case process w of
        None \<Rightarrow> w
      | Some q \<Rightarrow>
          let i = requestId w;
              w1 = emit [Write q \<lparr>req_id = i, req_method = ''initialize'',
                                  req_params = Some initialize_params\<rparr>]
                     (w\<lparr>requestId := js_succ i\<rparr>)
          in if serverName w = ''excel-mcp'' then w1\<lparr>timers := timers w1 @ [StdioTimer p]\<rparr>
             else w1)"

definition stdio_timer :: "pid \<Rightarrow> 'k runtime \<Rightarrow> 'k runtime" where
  "stdio_timer p w =
     (if p < length (children w) \<and> \<not> initialized (children w ! p) then
        emit [Resolve (connecting (children w ! p)) None]
          ((at_child p (\<lambda>c. c\<lparr>initialized := True\<rparr>) w)\<lparr>isConnected := True\<rparr>)
      else w)"

definition start_timeout :: "pid \<Rightarrow> 'k runtime \<Rightarrow> 'k runtime" where
  "start_timeout p w =
     (if p < length (children w) \<and> \<not> initialized (children w ! p)
      then emit [Reject (connecting (children w ! p)) (InitializeTimeout (serverName w))] w
      else w)"

subsection \<open>Requests\<close>

text \<open>
  \<^verbatim>\<open>sendRequest\<close>: without a process the call throws, which rejects its promise. Otherwise
  it takes the next identifier, registers the continuations, writes the line and arms the
  timer. \<^verbatim>\<open>params\<close> goes into the line only when it is truthy.
\<close>

definition sendRequest :: "'k \<Rightarrow> string \<Rightarrow> json option \<Rightarrow> 'k runtime \<Rightarrow> 'k runtime" where
  "sendRequest k meth params w =
     (case process w of
        None \<Rightarrow> emit [Reject k (ClientNotConnected (serverName w))] w
      | Some p \<Rightarrow>
          let i = requestId w;
              w1 = w\<lparr>requestId := js_succ i\<rparr>;
              w2 = w1\<lparr>pendingRequests := (pendingRequests w1)(i \<mapsto> k)\<rparr>;
              w3 = emit [Write p \<lparr>req_id = i, req_method = meth,
                                  req_params = (if truthy params then params else None)\<rparr>] w2
          in w3\<lparr>timers := timers w3 @ [RequestTimer i k]\<rparr>)"

text \<open>The callback of the request timer, with the \<^verbatim>\<open>id\<close> and \<^verbatim>\<open>reject\<close> it captured.\<close>

definition request_timer :: "nat \<Rightarrow> 'k \<Rightarrow> 'k runtime \<Rightarrow> 'k runtime" where
  "request_timer i k w =
     (if pendingRequests w i \<noteq> None then
        emit [Reject k (RequestTimeout (serverName w))]
          (w\<lparr>pendingRequests := (pendingRequests w)(i := None)\<rparr>)
      else w)"

definition callTool :: "'k \<Rightarrow> string \<Rightarrow> json \<Rightarrow> 'k runtime \<Rightarrow> 'k runtime" where
  "callTool k n args =
     sendRequest k ''tools/call'' (Some (JObj [(''name'', JStr n), (''arguments'', args)]))"

definition disconnect :: "'k runtime \<Rightarrow> 'k runtime" where
  "disconnect w =
     (if \<not> isConnected w then w
      else (emit (case process w of None \<Rightarrow> [] | Some p \<Rightarrow> [Kill p]) w)
             \<lparr>process := None, isConnected := False, pendingRequests := Map.empty\<rparr>)"

subsection \<open>Runs\<close>

text \<open>
  What can happen to a wrapper: a call of one of its methods, output or an event of one of
  its children, or a timer going off. A timer goes off once, and only after it was armed.
\<close>

datatype 'k event =
    Connect 'k
  | Disconnect
  | SendRequest 'k string "json option"
  | Stderr pid bytes
  | Stdout pid bytes
  | ProcessFailed pid
  | ProcessClosed pid
  | Fire "'k timer"

fun fire :: "'k timer \<Rightarrow> 'k runtime \<Rightarrow> 'k runtime" where
  "fire (InitializeTimer p) w = initialize_timer p w"
| "fire (StdioTimer p) w = stdio_timer p w"
| "fire (StartTimeout p) w = start_timeout p w"
| "fire (RequestTimer i k) w = request_timer i k w"

fun step :: "(jsstr \<Rightarrow> json option) \<Rightarrow> 'k event \<Rightarrow> 'k runtime \<Rightarrow> 'k runtime" where
  "step parse (Connect k) w = connect k w"
| "step parse Disconnect w = disconnect w"
| "step parse (SendRequest k meth params) w = sendRequest k meth params w"
| "step parse (Stderr p data) w = marker_data p data w"
| "step parse (Stdout p data) w = stdout_data parse p data w"
| "step parse (ProcessFailed p) w = process_error p w"
| "step parse (ProcessClosed p) w = process_close p w"
| "step parse (Fire t) w =
     (if t \<in> set (timers w) then fire t (w\<lparr>timers := remove1 t (timers w)\<rparr>) else w)"

definition run :: "(jsstr \<Rightarrow> json option) \<Rightarrow> 'k event list \<Rightarrow> 'k runtime \<Rightarrow> 'k runtime" where
  "run parse evs w = fold (step parse) evs w"

subsection \<open>What a run shows\<close>

text \<open>The request identifiers taken so far, in order: each one is written as soon as it is taken.\<close>

fun written :: "'k effect \<Rightarrow> nat list" where
  "written (Write p r) = [req_id r]"
| "written e = []"

definition allocated :: "'k effect list \<Rightarrow> nat list" where
  "allocated es = concat (map written es)"

text \<open>The children that were spawned and have not closed.\<close>

definition live :: "('k, 'z) runtime_scheme \<Rightarrow> pid list" where
  "live w = filter (\<lambda>p. \<not> exited (children w ! p)) [0..<length (children w)]"

section \<open>The single-server wrapper \<^verbatim>\<open>FirecrawlMCPClient\<close>\<close>

text \<open>
  The class of \<^verbatim>\<open>mcp-client.ts\<close> has the four fields \<^verbatim>\<open>process\<close>, \<^verbatim>\<open>isConnected\<close>,
  \<^verbatim>\<open>requestId\<close> and \<^verbatim>\<open>pendingRequests\<close> and no name; its state is kept in the same
  record, with the name unused. Its \<^verbatim>\<open>connect\<close> listens on the standard error only,
  attaches the codec when the marker arrives, sends no \<^verbatim>\<open>initialize\<close> and gives up after
  ten seconds; its requests time out after thirty.
\<close>

definition firecrawl_handleMessage ::
  "json \<Rightarrow> ('k, 'z) runtime_scheme \<Rightarrow> ('k, 'z) runtime_scheme \<times> error option" where
  "firecrawl_handleMessage message w =
     (case field message ''id'' of
        None \<Rightarrow> (w, Some TypeError)
      | Some mid \<Rightarrow>
          if truthy mid \<and> has_pending (pendingRequests w) mid then
            (case pending_key mid of
               None \<Rightarrow> (w, None)
             | Some i \<Rightarrow>
                 (case pendingRequests w i of
                    None \<Rightarrow> (w, None)
                  | Some k \<Rightarrow>
                      let w' = w\<lparr>pendingRequests := (pendingRequests w)(i := None)\<rparr>;
                          e = the (field message ''error'')
                      in if truthy e
                         then (emit [Reject k (RequestFailed (failure_text e))] w', None)
                         else (emit [Resolve k (the (field message ''result''))] w', None)))
          else (w, None))"

definition firecrawl_connect :: "'k \<Rightarrow> 'k runtime \<Rightarrow> 'k runtime" where
  "firecrawl_connect k w =
     (if isConnected w then emit [Resolve k None] w
      else
        let p = length (children w);
            w1 = emit [Spawn p]
                   (w\<lparr>process := Some p,
                      children := children w
                        @ [\<lparr>initialized = False, connecting = k, codecs = [], exited = False\<rparr>]\<rparr>)
        in w1\<lparr>timers := timers w1 @ [StartTimeout p]\<rparr>)"



definition firecrawl_request_timer :: "nat \<Rightarrow> 'k \<Rightarrow> 'k runtime \<Rightarrow> 'k runtime" where
  "firecrawl_request_timer i k w =
     (if pendingRequests w i \<noteq> None then
        emit [Reject k (RequestTimeout [])]
          (w\<lparr>pendingRequests := (pendingRequests w)(i := None)\<rparr>)
      else w)"






definition firecrawl_start_timeout :: "pid \<Rightarrow> 'k runtime \<Rightarrow> 'k runtime" where
  "firecrawl_start_timeout p w =
     (if p < length (children w) \<and> \<not> initialized (children w ! p)
      then emit [Reject (connecting (children w ! p)) (InitializeTimeout [])] w
      else w)"




section \<open>The aggregator \<^verbatim>\<open>MultiMCPClient\<close>\<close>

text \<open>
  A tool descriptor as the wire format has it, and the descriptor the aggregator hands out:
  \<^verbatim>\<open>{...tool, name: `${serverName}_${tool.name}`, serverName}\<close>.
\<close>

record tool =
  name :: string
  description :: string
  inputSchema :: json

record ntool = tool +
  owner :: string

definition prefixed :: "string \<Rightarrow> tool \<Rightarrow> ntool" where
  "prefixed server t =
     \<lparr>name = server @ ''_'' @ name t, description = description t,
      inputSchema = inputSchema t, owner = server\<rparr>"

text \<open>The table of \<^verbatim>\<open>getExcelMCPServerTools\<close>.\<close>

definition getExcelMCPServerTools :: "tool list" where
  "getExcelMCPServerTools =
     [\<lparr>name = ''apply_formula'',
       description =
         ''Apply Excel formula to cell with verification'',
       inputSchema =
         JObj
          [(''type'', JStr ''object''),
           (''properties'', JObj
            [(''filepath'', JObj [(''type'', JStr ''string''), (''description'', JStr ''Path to Excel file'')]),
             (''sheet_name'', JObj [(''type'', JStr ''string''), (''description'', JStr ''Name of worksheet'')]),
             (''cell'', JObj [(''type'', JStr ''string''), (''description'', JStr ''Cell reference'')]),
             (''formula'', JObj
              [(''type'', JStr ''string''),
               (''description'', JStr ''Excel formula to apply'')])]),
           (''required'', JArr [JStr ''filepath'', JStr ''sheet_name'', JStr ''cell'', JStr ''formula''])]\<rparr>,
      \<lparr>name = ''validate_formula_syntax'',
       description =
         ''Validate Excel formula syntax without applying it'',
       inputSchema =
         JObj
          [(''type'', JStr ''object''),
           (''properties'', JObj
            [(''filepath'', JObj [(''type'', JStr ''string''), (''description'', JStr ''Path to Excel file'')]),
             (''sheet_name'', JObj [(''type'', JStr ''string''), (''description'', JStr ''Name of worksheet'')]),
             (''cell'', JObj [(''type'', JStr ''string''), (''description'', JStr ''Cell reference'')]),
             (''formula'', JObj
              [(''type'', JStr ''string''),
               (''description'', JStr ''Excel formula to validate'')])]),
           (''required'', JArr [JStr ''filepath'', JStr ''sheet_name'', JStr ''cell'', JStr ''formula''])]\<rparr>,
      \<lparr>name = ''read_data_from_excel'',
       description =
         ''Read data from Excel worksheet with cell metadata including validation rules'',
       inputSchema =
         JObj
          [(''type'', JStr ''object''),
           (''properties'', JObj
            [(''filepath'', JObj [(''type'', JStr ''string''), (''description'', JStr ''Path to Excel file'')]),
             (''sheet_name'', JObj [(''type'', JStr ''string''), (''description'', JStr ''Name of worksheet'')]),
             (''start_cell'', JObj
              [(''type'', JStr ''string''),
               (''description'', JStr ''Starting cell (default A1)'')]),
             (''end_cell'', JObj
              [(''type'', JStr ''string''),
               (''description'', JStr ''Ending cell (optional)'')]),
             (''preview_only'', JObj
              [(''type'', JStr ''boolean''),
               (''description'', JStr ''Whether to return preview only'')])]),
           (''required'', JArr [JStr ''filepath'', JStr ''sheet_name''])]\<rparr>,
      \<lparr>name = ''write_data_to_excel'',
       description =
         ''Write data to Excel worksheet'',
       inputSchema =
         JObj
          [(''type'', JStr ''object''),
           (''properties'', JObj
            [(''filepath'', JObj [(''type'', JStr ''string''), (''description'', JStr ''Path to Excel file'')]),
             (''sheet_name'', JObj [(''type'', JStr ''string''), (''description'', JStr ''Name of worksheet'')]),
             (''data'', JObj
              [(''type'', JStr ''array''),
               (''description'', JStr ''List of lists containing data to write'')]),
             (''start_cell'', JObj
              [(''type'', JStr ''string''),
               (''description'', JStr ''Cell to start writing to (default A1)'')])]),
           (''required'', JArr [JStr ''filepath'', JStr ''sheet_name'', JStr ''data''])]\<rparr>,
      \<lparr>name = ''create_workbook'',
       description =
         ''Create new Excel workbook'',
       inputSchema =
         JObj
          [(''type'', JStr ''object''),
           (''properties'', JObj
            [(''filepath'', JObj
              [(''type'', JStr ''string''),
               (''description'', JStr ''Path where to create workbook'')])]),
           (''required'', JArr [JStr ''filepath''])]\<rparr>,
      \<lparr>name = ''create_worksheet'',
       description =
         ''Create new worksheet in workbook'',
       inputSchema =
         JObj
          [(''type'', JStr ''object''),
           (''properties'', JObj
            [(''filepath'', JObj [(''type'', JStr ''string''), (''description'', JStr ''Path to Excel file'')]),
             (''sheet_name'', JObj
              [(''type'', JStr ''string''),
               (''description'', JStr ''Name for the new worksheet'')])]),
           (''required'', JArr [JStr ''filepath'', JStr ''sheet_name''])]\<rparr>,
      \<lparr>name = ''create_chart'',
       description =
         ''Create charts and graphs in Excel'',
       inputSchema =
         JObj
          [(''type'', JStr ''object''),
           (''properties'', JObj
            [(''filepath'', JObj [(''type'', JStr ''string''), (''description'', JStr ''Path to Excel file'')]),
             (''sheet_name'', JObj [(''type'', JStr ''string''), (''description'', JStr ''Name of worksheet'')]),
             (''data_range'', JObj
              [(''type'', JStr ''string''),
               (''description'', JStr ''Data range for chart'')]),
             (''chart_type'', JObj [(''type'', JStr ''string''), (''description'', JStr ''Type of chart'')]),
             (''target_cell'', JObj
              [(''type'', JStr ''string''),
               (''description'', JStr ''Target cell for chart'')]),
             (''title'', JObj [(''type'', JStr ''string''), (''description'', JStr ''Chart title'')]),
             (''x_axis'', JObj [(''type'', JStr ''string''), (''description'', JStr ''X-axis label'')]),
             (''y_axis'', JObj [(''type'', JStr ''string''), (''description'', JStr ''Y-axis label'')])]),
           (''required'', JArr [JStr ''filepath'', JStr ''sheet_name'', JStr ''data_range'', JStr ''chart_type'', JStr ''target_cell''])]\<rparr>,
      \<lparr>name = ''create_pivot_table'',
       description =
         ''Create pivot table in Excel worksheet'',
       inputSchema =
         JObj
          [(''type'', JStr ''object''),
           (''properties'', JObj
            [(''filepath'', JObj [(''type'', JStr ''string''), (''description'', JStr ''Path to Excel file'')]),
             (''sheet_name'', JObj [(''type'', JStr ''string''), (''description'', JStr ''Name of worksheet'')]),
             (''data_range'', JObj
              [(''type'', JStr ''string''),
               (''description'', JStr ''Data range for pivot table'')]),
             (''rows'', JObj [(''type'', JStr ''array''), (''description'', JStr ''Row fields'')]),
             (''values'', JObj [(''type'', JStr ''array''), (''description'', JStr ''Value fields'')]),
             (''columns'', JObj
              [(''type'', JStr ''array''),
               (''description'', JStr ''Column fields (optional)'')]),
             (''agg_func'', JObj
              [(''type'', JStr ''string''),
               (''description'', JStr ''Aggregation function (default mean)'')])]),
           (''required'', JArr [JStr ''filepath'', JStr ''sheet_name'', JStr ''data_range'', JStr ''rows'', JStr ''values''])]\<rparr>,
      \<lparr>name = ''create_table'',
       description =
         ''Create Excel table'',
       inputSchema =
         JObj
          [(''type'', JStr ''object''),
           (''properties'', JObj
            [(''filepath'', JObj [(''type'', JStr ''string''), (''description'', JStr ''Path to Excel file'')]),
             (''sheet_name'', JObj [(''type'', JStr ''string''), (''description'', JStr ''Name of worksheet'')]),
             (''data_range'', JObj
              [(''type'', JStr ''string''),
               (''description'', JStr ''Data range for table'')]),
             (''table_name'', JObj
              [(''type'', JStr ''string''),
               (''description'', JStr ''Name for the table (optional)'')]),
             (''table_style'', JObj
              [(''type'', JStr ''string''),
               (''description'', JStr ''Table style (default TableStyleMedium9)'')])]),
           (''required'', JArr [JStr ''filepath'', JStr ''sheet_name'', JStr ''data_range''])]\<rparr>,
      \<lparr>name = ''copy_worksheet'',
       description =
         ''Copy worksheet'',
       inputSchema =
         JObj
          [(''type'', JStr ''object''),
           (''properties'', JObj
            [(''filepath'', JObj [(''type'', JStr ''string''), (''description'', JStr ''Path to Excel file'')]),
             (''source_sheet'', JObj
              [(''type'', JStr ''string''),
               (''description'', JStr ''Source worksheet name'')]),
             (''target_sheet'', JObj
              [(''type'', JStr ''string''),
               (''description'', JStr ''Target worksheet name'')])]),
           (''required'', JArr [JStr ''filepath'', JStr ''source_sheet'', JStr ''target_sheet''])]\<rparr>,
      \<lparr>name = ''delete_worksheet'',
       description =
         ''Delete worksheet'',
       inputSchema =
         JObj
          [(''type'', JStr ''object''),
           (''properties'', JObj
            [(''filepath'', JObj [(''type'', JStr ''string''), (''description'', JStr ''Path to Excel file'')]),
             (''sheet_name'', JObj
              [(''type'', JStr ''string''),
               (''description'', JStr ''Name of worksheet to delete'')])]),
           (''required'', JArr [JStr ''filepath'', JStr ''sheet_name''])]\<rparr>,
      \<lparr>name = ''rename_worksheet'',
       description =
         ''Rename worksheet'',
       inputSchema =
         JObj
          [(''type'', JStr ''object''),
           (''properties'', JObj
            [(''filepath'', JObj [(''type'', JStr ''string''), (''description'', JStr ''Path to Excel file'')]),
             (''old_name'', JObj
              [(''type'', JStr ''string''),
               (''description'', JStr ''Current worksheet name'')]),
             (''new_name'', JObj [(''type'', JStr ''string''), (''description'', JStr ''New worksheet name'')])]),
           (''required'', JArr [JStr ''filepath'', JStr ''old_name'', JStr ''new_name''])]\<rparr>,
      \<lparr>name = ''get_workbook_metadata'',
       description =
         ''Get metadata about workbook including sheets and ranges'',
       inputSchema =
         JObj
          [(''type'', JStr ''object''),
           (''properties'', JObj
            [(''filepath'', JObj [(''type'', JStr ''string''), (''description'', JStr ''Path to Excel file'')]),
             (''include_ranges'', JObj
              [(''type'', JStr ''boolean''),
               (''description'', JStr ''Whether to include range information'')])]),
           (''required'', JArr [JStr ''filepath''])]\<rparr>,
      \<lparr>name = ''merge_cells'',
       description =
         ''Merge a range of cells'',
       inputSchema =
         JObj
          [(''type'', JStr ''object''),
           (''properties'', JObj
            [(''filepath'', JObj [(''type'', JStr ''string''), (''description'', JStr ''Path to Excel file'')]),
             (''sheet_name'', JObj [(''type'', JStr ''string''), (''description'', JStr ''Name of worksheet'')]),
             (''start_cell'', JObj
              [(''type'', JStr ''string''),
               (''description'', JStr ''Starting cell of range'')]),
             (''end_cell'', JObj
              [(''type'', JStr ''string''),
               (''description'', JStr ''Ending cell of range'')])]),
           (''required'', JArr [JStr ''filepath'', JStr ''sheet_name'', JStr ''start_cell'', JStr ''end_cell''])]\<rparr>,
      \<lparr>name = ''unmerge_cells'',
       description =
         ''Unmerge a previously merged range of cells'',
       inputSchema =
         JObj
          [(''type'', JStr ''object''),
           (''properties'', JObj
            [(''filepath'', JObj [(''type'', JStr ''string''), (''description'', JStr ''Path to Excel file'')]),
             (''sheet_name'', JObj [(''type'', JStr ''string''), (''description'', JStr ''Name of worksheet'')]),
             (''start_cell'', JObj
              [(''type'', JStr ''string''),
               (''description'', JStr ''Starting cell of range'')]),
             (''end_cell'', JObj
              [(''type'', JStr ''string''),
               (''description'', JStr ''Ending cell of range'')])]),
           (''required'', JArr [JStr ''filepath'', JStr ''sheet_name'', JStr ''start_cell'', JStr ''end_cell''])]\<rparr>,
      \<lparr>name = ''get_merged_cells'',
       description =
         ''Get merged cells in a worksheet'',
       inputSchema =
         JObj
          [(''type'', JStr ''object''),
           (''properties'', JObj
            [(''filepath'', JObj [(''type'', JStr ''string''), (''description'', JStr ''Path to Excel file'')]),
             (''sheet_name'', JObj [(''type'', JStr ''string''), (''description'', JStr ''Name of worksheet'')])]),
           (''required'', JArr [JStr ''filepath'', JStr ''sheet_name''])]\<rparr>,
      \<lparr>name = ''copy_range'',
       description =
         ''Copy cell range'',
       inputSchema =
         JObj
          [(''type'', JStr ''object''),
           (''properties'', JObj
            [(''filepath'', JObj [(''type'', JStr ''string''), (''description'', JStr ''Path to Excel file'')]),
             (''sheet_name'', JObj [(''type'', JStr ''string''), (''description'', JStr ''Name of worksheet'')]),
             (''source_start'', JObj [(''type'', JStr ''string''), (''description'', JStr ''Source start cell'')]),
             (''source_end'', JObj [(''type'', JStr ''string''), (''description'', JStr ''Source end cell'')]),
             (''target_start'', JObj [(''type'', JStr ''string''), (''description'', JStr ''Target start cell'')]),
             (''target_sheet'', JObj
              [(''type'', JStr ''string''),
               (''description'', JStr ''Target worksheet (optional)'')])]),
           (''required'', JArr [JStr ''filepath'', JStr ''sheet_name'', JStr ''source_start'', JStr ''source_end'', JStr ''target_start''])]\<rparr>,
      \<lparr>name = ''delete_range'',
       description =
         ''Delete cell range'',
       inputSchema =
         JObj
          [(''type'', JStr ''object''),
           (''properties'', JObj
            [(''filepath'', JObj [(''type'', JStr ''string''), (''description'', JStr ''Path to Excel file'')]),
             (''sheet_name'', JObj [(''type'', JStr ''string''), (''description'', JStr ''Name of worksheet'')]),
             (''start_cell'', JObj [(''type'', JStr ''string''), (''description'', JStr ''Starting cell'')]),
             (''end_cell'', JObj [(''type'', JStr ''string''), (''description'', JStr ''Ending cell'')]),
             (''shift_direction'', JObj
              [(''type'', JStr ''string''),
               (''description'', JStr ''Shift direction (up/down/left/right)'')])]),
           (''required'', JArr [JStr ''filepath'', JStr ''sheet_name'', JStr ''start_cell'', JStr ''end_cell''])]\<rparr>,
      \<lparr>name = ''validate_excel_range'',
       description =
         ''Validate Excel range'',
       inputSchema =
         JObj
          [(''type'', JStr ''object''),
           (''properties'', JObj
            [(''filepath'', JObj [(''type'', JStr ''string''), (''description'', JStr ''Path to Excel file'')]),
             (''sheet_name'', JObj [(''type'', JStr ''string''), (''description'', JStr ''Name of worksheet'')]),
             (''start_cell'', JObj [(''type'', JStr ''string''), (''description'', JStr ''Starting cell'')]),
             (''end_cell'', JObj
              [(''type'', JStr ''string''),
               (''description'', JStr ''Ending cell (optional)'')])]),
           (''required'', JArr [JStr ''filepath'', JStr ''sheet_name'', JStr ''start_cell''])]\<rparr>,
      \<lparr>name = ''search_excel_files'',
       description =
         (''Search for Excel files on the filesystem. Use '' @ [CHR 0x22] @ ''.'' @ [CHR 0x22] @ '' for current directory or absolute paths like '' @ [CHR 0x22] @ ''/Users/username'' @ [CHR 0x22] @ '' instead of '' @ [CHR 0x22] @ ''~'' @ [CHR 0x22] @ ''.''),
       inputSchema =
         JObj
          [(''type'', JStr ''object''),
           (''properties'', JObj
            [(''search_path'', JObj
              [(''type'', JStr ''string''),
               (''description'', JStr (''Directory to search in (default: current directory '' @ [CHR 0x22] @ ''.'' @ [CHR 0x22] @ '')'')),
               (''default'', JStr ''.'')]),
             (''filename_pattern'', JObj
              [(''type'', JStr ''string''),
               (''description'', JStr (''Pattern to match (default: '' @ [CHR 0x22] @ ''*.xlsx'' @ [CHR 0x22] @ '', supports *.xls, *.xlsm)'')),
               (''default'', JStr ''*.xlsx'')]),
             (''include_subdirs'', JObj
              [(''type'', JStr ''boolean''),
               (''description'', JStr ''Whether to search subdirectories recursively (default: true)''),
               (''default'', JBool True)]),
             (''max_results'', JObj
              [(''type'', JStr ''number''),
               (''description'', JStr ''Maximum number of results to return (default: 50)''),
               (''default'', JNum 50)])]),
           (''required'', JArr [])]\<rparr>,
      \<lparr>name = ''get_common_excel_locations'',
       description =
         ''Get common locations where Excel files are typically stored'',
       inputSchema =
         JObj [(''type'', JStr ''object''), (''properties'', JObj []), (''required'', JArr [])]\<rparr>,
      \<lparr>name = ''get_data_validation_info'',
       description =
         ''Get all data validation rules in a worksheet'',
       inputSchema =
         JObj
          [(''type'', JStr ''object''),
           (''properties'', JObj
            [(''filepath'', JObj [(''type'', JStr ''string''), (''description'', JStr ''Path to Excel file'')]),
             (''sheet_name'', JObj [(''type'', JStr ''string''), (''description'', JStr ''Name of worksheet'')])]),
           (''required'', JArr [JStr ''filepath'', JStr ''sheet_name''])]\<rparr>,
      \<lparr>name = ''format_range'',
       description =
         ''Apply formatting to a range of cells'',
       inputSchema =
         JObj
          [(''type'', JStr ''object''),
           (''properties'', JObj
            [(''filepath'', JObj [(''type'', JStr ''string''), (''description'', JStr ''Path to Excel file'')]),
             (''sheet_name'', JObj [(''type'', JStr ''string''), (''description'', JStr ''Name of worksheet'')]),
             (''start_cell'', JObj [(''type'', JStr ''string''), (''description'', JStr ''Starting cell'')]),
             (''end_cell'', JObj
              [(''type'', JStr ''string''),
               (''description'', JStr ''Ending cell (optional)'')]),
             (''bold'', JObj [(''type'', JStr ''boolean''), (''description'', JStr ''Make text bold'')]),
             (''italic'', JObj [(''type'', JStr ''boolean''), (''description'', JStr ''Make text italic'')]),
             (''underline'', JObj
              [(''type'', JStr ''boolean''),
               (''description'', JStr ''Make text underlined'')]),
             (''font_size'', JObj [(''type'', JStr ''number''), (''description'', JStr ''Font size'')]),
             (''font_color'', JObj [(''type'', JStr ''string''), (''description'', JStr ''Font color'')]),
             (''bg_color'', JObj [(''type'', JStr ''string''), (''description'', JStr ''Background color'')]),
             (''border_style'', JObj [(''type'', JStr ''string''), (''description'', JStr ''Border style'')]),
             (''border_color'', JObj [(''type'', JStr ''string''), (''description'', JStr ''Border color'')]),
             (''number_format'', JObj [(''type'', JStr ''string''), (''description'', JStr ''Number format'')]),
             (''alignment'', JObj [(''type'', JStr ''string''), (''description'', JStr ''Text alignment'')]),
             (''wrap_text'', JObj [(''type'', JStr ''boolean''), (''description'', JStr ''Wrap text'')]),
             (''merge_cells'', JObj [(''type'', JStr ''boolean''), (''description'', JStr ''Merge cells'')])]),
           (''required'', JArr [JStr ''filepath'', JStr ''sheet_name'', JStr ''start_cell''])]\<rparr>]"

text \<open>
  The aggregator: both maps keep the order of insertion, so each is a list of pairs with
  one pair per key; the time stamp is in milliseconds.
\<close>

record 'k MultiMCPClient =
  clients :: "(string \<times> 'k MCPClient) list"
  toolsCache :: "(string \<times> ntool list) list"
  lastToolsRefresh :: int

definition TOOLS_CACHE_TTL :: int where
  "TOOLS_CACHE_TTL = 5 * 60 * 1000"

definition getConnectionStatus :: "('k, 'z) MCPClient_scheme \<Rightarrow> bool" where
  "getConnectionStatus c = isConnected c"

text \<open>The constructor: \<^verbatim>\<open>loadConfiguration\<close> registers three wrappers.\<close>

definition loadConfiguration :: "'k MultiMCPClient" where
  "loadConfiguration =
     \<lparr>clients = [(''firecrawl'', new_MCPClient ''firecrawl''),
                 (''columbia-lake-agents'', new_MCPClient ''columbia-lake-agents''),
                 (''excel-mcp'', new_MCPClient ''excel-mcp'')],
      toolsCache = [], lastToolsRefresh = 0\<rparr>"

definition getConnectedServers :: "'k MultiMCPClient \<Rightarrow> string list" where
  "getConnectedServers m =
     map fst (filter (\<lambda>(n, client). getConnectionStatus client) (clients m))"

subsection \<open>Discovery\<close>

text \<open>
  \<^verbatim>\<open>MCPClient.listTools\<close> as a function of how its requests end. \<open>first\<close> is the outcome
  of \<^verbatim>\<open>sendRequest('tools/list')\<close>, \<open>retry\<close> the outcome of the second request, sent
  with empty parameters when the first is rejected. A fulfilled request carries what
  \<^verbatim>\<open>response.tools\<close> evaluates to: an exception when the response is \<^verbatim>\<open>undefined\<close> or
  \<^verbatim>\<open>null\<close>, a falsy value, or the list of descriptors.
\<close>

datatype listing = NoResponse | NoTools | Tools "tool list"

datatype 'a outcome = Fulfilled 'a | Rejected error

definition listTools :: "string \<Rightarrow> listing outcome \<Rightarrow> listing outcome \<Rightarrow> error + tool list" where
  "listTools server first retry =
     (case (case first of Fulfilled r \<Rightarrow> Fulfilled r | Rejected e \<Rightarrow> retry) of
        Fulfilled (Tools ts) \<Rightarrow> Inr ts
      | Fulfilled NoTools \<Rightarrow> Inr []
      | Fulfilled NoResponse \<Rightarrow> (if server = ''excel-mcp'' then Inr [] else Inr [])
      | Rejected e \<Rightarrow> (if server = ''excel-mcp'' then Inr [] else Inr []))"

text \<open>What \<^verbatim>\<open>getAllTools\<close> asks of whom, in order.\<close>

datatype inquiry = ListTools string | ManualTools string

text \<open>
  The body of the refresh loop for one entry of \<^verbatim>\<open>clients\<close>, on the cache, the list built
  so far and the inquiries made so far. \<open>env\<close> is what \<^verbatim>\<open>client.listTools()\<close> of each
  server settles with in this round.
\<close>

definition store :: "string \<Rightarrow> tool list \<Rightarrow> inquiry \<Rightarrow>
    (string \<times> ntool list) list \<times> ntool list \<times> inquiry list \<Rightarrow>
    (string \<times> ntool list) list \<times> ntool list \<times> inquiry list" where
  "store server tools q acc =
     (case acc of (cache, allTools, asked) \<Rightarrow>
        let prefixedTools = map (prefixed server) tools
        in (AList.update server prefixedTools cache, allTools @ prefixedTools, asked @ [q]))"

definition visit :: "(string \<Rightarrow> error + tool list) \<Rightarrow> string \<times> 'k MCPClient \<Rightarrow>
    (string \<times> ntool list) list \<times> ntool list \<times> inquiry list \<Rightarrow>
    (string \<times> ntool list) list \<times> ntool list \<times> inquiry list" where
  "visit env entry acc =
     (case entry of (server, client) \<Rightarrow>
        if getConnectionStatus client then
          (if server = ''excel-mcp'' then
             store server getExcelMCPServerTools (ManualTools server) acc
           else
             (case env server of
                Inr tools \<Rightarrow> store server tools (ListTools server) acc
              | Inl e \<Rightarrow>
                  (case acc of (cache, allTools, asked) \<Rightarrow>
                     if server = ''excel-mcp'' then
                       store server getExcelMCPServerTools (ListTools server) acc
                     else (cache, allTools, asked @ [ListTools server]))))
        else acc)"

text \<open>
  \<^verbatim>\<open>getAllTools\<close> at the time \<open>now\<close>: the list returned, the inquiries made and the
  aggregator afterwards.
\<close>

definition getAllTools :: "(string \<Rightarrow> error + tool list) \<Rightarrow> int \<Rightarrow> 'k MultiMCPClient \<Rightarrow>
    ntool list \<times> inquiry list \<times> 'k MultiMCPClient" where
  "getAllTools env now m =
     (if now - lastToolsRefresh m < TOOLS_CACHE_TTL \<and> length (toolsCache m) > 0 then
        (concat (map snd (toolsCache m)), [], m)
      else
        (case fold (visit env) (clients m) (toolsCache m, [], []) of
           (cache, allTools, asked) \<Rightarrow>
             (allTools, asked, m\<lparr>toolsCache := cache, lastToolsRefresh := now\<rparr>)))"

definition disconnectAll :: "'k MultiMCPClient \<Rightarrow> 'k MultiMCPClient" where
  "disconnectAll m =
     m\<lparr>clients := map (\<lambda>(n, c). (n, if isConnected c
                                        then c\<lparr>process := None, isConnected := False,
                                                pendingRequests := Map.empty\<rparr>
                                        else c)) (clients m),
       toolsCache := []\<rparr>"

subsection \<open>Dispatch\<close>

text \<open>
  What \<^verbatim>\<open>executeTool\<close> ends up calling: one of the four local fallbacks, or
  \<^verbatim>\<open>callTool\<close> of a wrapper with the bare tool name.
\<close>

datatype dispatch =
    ExcelSearchFallback json
  | ExcelLocationsFallback
  | ExcelReadFallback json
  | ExcelMetadataFallback json
  | CallTool string string json

definition executeTool :: "string \<Rightarrow> json \<Rightarrow> 'k MultiMCPClient \<Rightarrow> error + dispatch" where
  "executeTool toolName args m =
     (let parts = split CHR ''_'' toolName;
          server = (case parts of [] \<Rightarrow> ''undefined'' | p # ps \<Rightarrow> p);
          actualToolName = join ''_'' (drop 1 parts)
      in case map_of (clients m) server of
           None \<Rightarrow> Inl (UnknownServer server)
         | Some client \<Rightarrow>
             if \<not> getConnectionStatus client then Inl (ServerNotConnected server)
             else if server = ''excel-mcp'' then
               (if actualToolName = ''search_excel_files'' then Inr (ExcelSearchFallback args)
                else if actualToolName = ''get_common_excel_locations'' then Inr ExcelLocationsFallback
                else if actualToolName = ''read_data_from_excel'' then Inr (ExcelReadFallback args)
                else if actualToolName = ''get_workbook_metadata'' then Inr (ExcelMetadataFallback args)
                else Inl (FallbackNotImplemented actualToolName))
             else Inr (CallTool server actualToolName args))"

subsection \<open>The entry point of the adapters\<close>

text \<open>
  \<^verbatim>\<open>executeMCPTool\<close> of \<^verbatim>\<open>mcp-integration.ts\<close>: what it calls, in order. \<open>connected\<close> says
  whether \<^verbatim>\<open>firecrawlMCPClient.connect()\<close> resolves.
\<close>

datatype routed =
    MultiExecuteTool "error + dispatch"
  | FirecrawlConnect
  | FirecrawlCallTool string json

definition executeMCPTool :: "'k MultiMCPClient \<Rightarrow> bool \<Rightarrow> string \<Rightarrow> json \<Rightarrow> routed list" where
  "executeMCPTool m connected toolName args =
     (if str_includes toolName ''_'' then [MultiExecuteTool (executeTool toolName args m)]
      else FirecrawlConnect # (if connected then [FirecrawlCallTool toolName args] else []))"

section \<open>Notions for the properties\<close>

subsection \<open>The cache of the registry\<close>

text \<open>
  What the cache holds after any number of refreshes: every descriptor filed under a server
  carries that server as owner and a name that starts with the server's name and the
  separator. The second predicate adds what uniqueness of the names needs.
\<close>

definition slice_named :: "string \<Rightarrow> ntool list \<Rightarrow> bool" where
  "slice_named server ts \<longleftrightarrow>
     (\<forall>t \<in> set ts. owner t = server \<and> (\<exists>orig. name t = server @ ''_'' @ orig))"

definition cache_named :: "'k MultiMCPClient \<Rightarrow> bool" where
  "cache_named m \<longleftrightarrow> (\<forall>(server, ts) \<in> set (toolsCache m). slice_named server ts)"

definition cache_distinct :: "'k MultiMCPClient \<Rightarrow> bool" where
  "cache_distinct m \<longleftrightarrow>
     distinct (map fst (toolsCache m))
     \<and> (\<forall>(server, ts) \<in> set (toolsCache m). CHR ''_'' \<notin> set server \<and> distinct (map name ts))"

text \<open>
  One round of the refresh loop, taken apart: what a connected server contributes (nothing
  when \<^verbatim>\<open>listTools\<close> rejects), what is asked of it, its slice and the cache after it.
\<close>

definition contribution :: "(string \<Rightarrow> error + tool list) \<Rightarrow> string \<Rightarrow> tool list option" where
  "contribution env server =
     (if server = ''excel-mcp'' then Some getExcelMCPServerTools
      else (case env server of Inr ts \<Rightarrow> Some ts | Inl e \<Rightarrow> None))"

definition inquiry_of :: "string \<Rightarrow> inquiry" where
  "inquiry_of server = (if server = ''excel-mcp'' then ManualTools server else ListTools server)"

definition slice_of :: "(string \<Rightarrow> error + tool list) \<Rightarrow> string \<Rightarrow> ntool list" where
  "slice_of env server =
     (case contribution env server of None \<Rightarrow> [] | Some ts \<Rightarrow> map (prefixed server) ts)"

definition cache_after :: "(string \<Rightarrow> error + tool list) \<Rightarrow> string \<Rightarrow>
    (string \<times> ntool list) list \<Rightarrow> (string \<times> ntool list) list" where
  "cache_after env server cache =
     (case contribution env server of None \<Rightarrow> cache
      | Some ts \<Rightarrow> AList.update server (map (prefixed server) ts) cache)"

subsection \<open>Request identifiers\<close>

text \<open>
  A step that takes no identifier leaves the counter and the identifiers written so far as
  they are and adds no entry to the pending map. The invariant of a wrapper whose counter
  is below \<open>2 ^ 53\<close>: the identifiers taken so far are \<open>1, 2, \<dots>\<close> up to the counter, and
  every key of the pending map is below the counter.
\<close>

definition unallocating :: "('k, 'z) runtime_scheme \<Rightarrow> ('k, 'z) runtime_scheme \<Rightarrow> bool" where
  "unallocating w w' \<longleftrightarrow>
     requestId w' = requestId w \<and> allocated (effects w') = allocated (effects w)
     \<and> (\<forall>i. pendingRequests w' i \<noteq> None \<longrightarrow> pendingRequests w i \<noteq> None)"


text \<open>
  The events that leave an outstanding request \<open>i\<close> alone: all but \<^verbatim>\<open>disconnect\<close>,
  output of a child, which may carry the response, and the timer of the request.
\<close>

fun undisturbed :: "nat \<Rightarrow> 'k event \<Rightarrow> bool" where
  "undisturbed i Disconnect = False"
| "undisturbed i (Stdout p data) = False"
| "undisturbed i (Fire (RequestTimer j k)) = (j \<noteq> i)"
| "undisturbed i ev = True"

subsection \<open>The codec, line by line\<close>

text \<open>
  The body of the loop of \<open>drain\<close> for one line that was cut and trimmed, and the listener
  as a function of its \<^verbatim>\<open>buffer\<close> and the wrapper. \<open>received\<close> lists the messages handed
  to \<^verbatim>\<open>handleMessage\<close>, in order; \<open>parsed\<close> is what one line adds to them.
\<close>

definition deliver ::
  "(jsstr \<Rightarrow> json option) \<Rightarrow> jsstr \<Rightarrow> ('k, 'z) runtime_scheme \<Rightarrow> ('k, 'z) runtime_scheme" where
  "deliver parse line w =
     (if line \<noteq> [] then
        (case parse line of
           None \<Rightarrow> emit [ParseFailed line] w
         | Some message \<Rightarrow>
             (case handleMessage message w of
                (w1, None) \<Rightarrow> w1
              | (w1, Some e) \<Rightarrow> emit [ParseFailed line] w1))
      else w)"

definition feed ::
  "(jsstr \<Rightarrow> json option) \<Rightarrow> bytes \<Rightarrow> jsstr \<times> ('k, 'z) runtime_scheme \<Rightarrow>
   jsstr \<times> ('k, 'z) runtime_scheme" where
  "feed parse data state = (case state of (buffer, w) \<Rightarrow> drain parse (buffer @ toString data) w)"

definition received :: "'k effect list \<Rightarrow> json list" where
  "received es = concat (map (\<lambda>e. case e of Received m \<Rightarrow> [m] | _ \<Rightarrow> []) es)"

definition parsed :: "(jsstr \<Rightarrow> json option) \<Rightarrow> jsstr \<Rightarrow> json list" where
  "parsed parse line =
     (if line = [] then [] else (case parse line of None \<Rightarrow> [] | Some message \<Rightarrow> [message]))"

section \<open>Properties of the tool registry\<close>

lemma visit_eq:
  "visit env (server, client) (cache, allTools, asked) =
     (if getConnectionStatus client then
        (cache_after env server cache, allTools @ slice_of env server, asked @ [inquiry_of server])
      else (cache, allTools, asked))"
  by (auto simp: visit_def store_def contribution_def inquiry_of_def slice_of_def cache_after_def Let_def
      split: sum.splits)

lemma fold_visit:
  "fold (visit env) cs (cache, allTools, asked) =
     (fold (cache_after env) (map fst (filter (\<lambda>(n, client). getConnectionStatus client) cs)) cache,
      allTools @ concat (map (slice_of env) (map fst (filter (\<lambda>(n, client). getConnectionStatus client) cs))),
      asked @ map inquiry_of (map fst (filter (\<lambda>(n, client). getConnectionStatus client) cs)))"
proof (induction cs arbitrary: cache allTools asked)
  case Nil
  then show ?case by simp
next
  case (Cons e cs)
  obtain server client where e: "e = (server, client)" by (cases e)
  show ?case
    unfolding e using Cons by (simp add: visit_eq)
qed

lemma getAllTools_refresh:
  "\<not> (now - lastToolsRefresh m < TOOLS_CACHE_TTL \<and> toolsCache m \<noteq> []) \<Longrightarrow>
   getAllTools env now m =
     (concat (map (slice_of env) (getConnectedServers m)),
      map inquiry_of (getConnectedServers m),
      m\<lparr>toolsCache := fold (cache_after env) (getConnectedServers m) (toolsCache m),
        lastToolsRefresh := now\<rparr>)"
  by (auto simp: getAllTools_def fold_visit getConnectedServers_def)

lemma getAllTools_cached:
  "now - lastToolsRefresh m < TOOLS_CACHE_TTL \<Longrightarrow> toolsCache m \<noteq> [] \<Longrightarrow>
   getAllTools env now m = (concat (map snd (toolsCache m)), [], m)"
  by (simp add: getAllTools_def)

lemma excel_distinct: "distinct (map name getExcelMCPServerTools)"
  by (simp add: getExcelMCPServerTools_def)

lemma name_prefixed: "name (prefixed s t) = s @ ''_'' @ name t" and owner_prefixed: "owner (prefixed s t) = s"
  by (simp_all add: prefixed_def)

lemma slice_named_slice_of: "slice_named s (slice_of env s)"
  by (auto simp: slice_named_def slice_of_def name_prefixed owner_prefixed split: option.splits)




lemma update_mem:
  "(a, b) \<in> set (AList.update k v al) \<Longrightarrow> (a, b) = (k, v) \<or> (a, b) \<in> set al"
  by (induction al) (auto split: if_splits)

lemma distinct_prefixed:
  "distinct (map name ts) \<Longrightarrow> distinct (map name (map (prefixed s) ts))"
  by (simp add: distinct_map comp_def name_prefixed inj_on_def)

lemma fold_cache_after_mem:
  "(a, b) \<in> set (fold (cache_after env) ss cache) \<Longrightarrow>
   (a \<in> set ss \<and> b = slice_of env a) \<or> (a, b) \<in> set cache"
proof (induction ss arbitrary: cache)
  case Nil
  then show ?case by simp
next
  case (Cons s ss)
  from Cons.IH [OF Cons.prems [simplified]]
  show ?case
    by (auto simp: cache_after_def slice_of_def split: option.splits dest: update_mem)
qed

lemma fold_cache_after_keys:
  "distinct (map fst cache) \<Longrightarrow> distinct (map fst (fold (cache_after env) ss cache))"
  by (induction ss arbitrary: cache) (auto simp: cache_after_def distinct_update split: option.splits)


lemma getConnectedServers_subset: "set (getConnectedServers m) \<subseteq> fst ` set (clients m)"
  by (auto simp: getConnectedServers_def)

lemma slice_of_distinct:
  "(\<And>ts. env s = Inr ts \<Longrightarrow> distinct (map name ts)) \<Longrightarrow> distinct (map name (slice_of env s))"
  using excel_distinct
  by (auto simp: slice_of_def contribution_def distinct_prefixed simp del: map_map split: option.splits sum.splits if_splits)

lemma cache_named_refresh:
  "cache_named m \<Longrightarrow> cache_named (snd (snd (getAllTools env now m)))"
  by (cases "now - lastToolsRefresh m < TOOLS_CACHE_TTL \<and> toolsCache m \<noteq> []")
     (auto simp: getAllTools_cached getAllTools_refresh cache_named_def slice_named_slice_of
       dest!: fold_cache_after_mem)




lemma cache_distinct_refresh:
  assumes sep: "\<forall>s \<in> fst ` set (clients m). CHR ''_'' \<notin> set s"
    and env: "\<forall>s ts. env s = Inr ts \<longrightarrow> distinct (map name ts)"
    and dist: "cache_distinct m"
  shows "cache_distinct (snd (snd (getAllTools env now m)))"
proof (cases "now - lastToolsRefresh m < TOOLS_CACHE_TTL \<and> toolsCache m \<noteq> []")
  case True
  then show ?thesis using dist by (simp add: getAllTools_cached)
next
  case False
  have "\<And>a b. (a, b) \<in> set (fold (cache_after env) (getConnectedServers m) (toolsCache m)) \<Longrightarrow>
          CHR ''_'' \<notin> set a \<and> distinct (map name b)"
  proof -
    fix a b assume "(a, b) \<in> set (fold (cache_after env) (getConnectedServers m) (toolsCache m))"
    then consider "a \<in> set (getConnectedServers m)" "b = slice_of env a" | "(a, b) \<in> set (toolsCache m)"
      using fold_cache_after_mem by blast
    then show "CHR ''_'' \<notin> set a \<and> distinct (map name b)"
    proof cases
      case 1
      then show ?thesis using sep env getConnectedServers_subset [of m]
        by (auto intro: slice_of_distinct)
    next
      case 2
      then show ?thesis using dist by (auto simp: cache_distinct_def)
    qed
  qed
  with False dist show ?thesis
    by (auto simp: getAllTools_refresh cache_distinct_def fold_cache_after_keys)
qed

text \<open>
  Both predicates hold of a new aggregator and after \<^verbatim>\<open>disconnectAll\<close>; the lemmas
  \<open>cache_named_refresh\<close> and \<open>cache_distinct_refresh\<close> carry them across
  \<^verbatim>\<open>getAllTools\<close>, and no other method writes the cache.
\<close>

lemma cache_named_initial: "cache_named (loadConfiguration :: 'k MultiMCPClient)"
  and cache_distinct_initial: "cache_distinct (loadConfiguration :: 'k MultiMCPClient)"
  by (simp_all add: cache_named_def cache_distinct_def loadConfiguration_def)

lemma cache_named_disconnectAll: "cache_named (disconnectAll m)"
  and cache_distinct_disconnectAll: "cache_distinct (disconnectAll m)"
  by (simp_all add: cache_named_def cache_distinct_def disconnectAll_def)







text \<open>
  C9, as the code has it. When both \<^verbatim>\<open>tools/list\<close> requests are rejected, \<^verbatim>\<open>listTools\<close>
  returns the empty list for every server, known to lack discovery or not, and it never
  rejects. \<^verbatim>\<open>getAllTools\<close> then files an empty slice for that server and goes on; for a
  connected \<^verbatim>\<open>excel-mcp\<close> it files the static table without calling \<^verbatim>\<open>listTools\<close>.
\<close>

theorem listTools_absorbs_failure:
  "listTools server (Rejected e1) (Rejected e2) = Inr []
   \<and> (\<exists>ts. listTools server first retry = Inr ts)
   \<and> (getConnectionStatus client \<and> server \<noteq> ''excel-mcp''
        \<and> env server = listTools server (Rejected e1) (Rejected e2) \<longrightarrow>
        visit env (server, client) (cache, allTools, asked)
          = (AList.update server [] cache, allTools, asked @ [ListTools server]))
   \<and> (getConnectionStatus client \<longrightarrow>
        visit env (''excel-mcp'', client) (cache, allTools, asked)
          = (AList.update ''excel-mcp'' (map (prefixed ''excel-mcp'') getExcelMCPServerTools) cache,
             allTools @ map (prefixed ''excel-mcp'') getExcelMCPServerTools,
             asked @ [ManualTools ''excel-mcp'']))"
proof -
  have a: "listTools server (Rejected e1) (Rejected e2) = Inr []"
    by (simp add: listTools_def)
  have b: "\<exists>ts. listTools server first retry = Inr ts"
    by (cases first; cases retry) (auto simp: listTools_def split: listing.splits)
  show ?thesis
    using a b by (simp add: visit_def store_def Let_def)
qed

theorem listTools_absorbs_failure_witness:
  "listTools ''columbia-lake-agents'' (Rejected (RequestTimeout ''columbia-lake-agents''))
       (Rejected (RequestTimeout ''columbia-lake-agents'')) = Inr []
   \<and> getConnectionStatus ((new_MCPClient ''columbia-lake-agents'' :: nat MCPClient)\<lparr>isConnected := True\<rparr>)
   \<and> ''columbia-lake-agents'' \<noteq> ''excel-mcp''
   \<and> visit (\<lambda>s. Inr [])
        (''columbia-lake-agents'', (new_MCPClient ''columbia-lake-agents'' :: nat MCPClient)\<lparr>isConnected := True\<rparr>)
        ([], [], [])
       = ([(''columbia-lake-agents'', [])], [], [ListTools ''columbia-lake-agents''])
   \<and> fst (snd (visit (\<lambda>s. Inr [])
        (''excel-mcp'', (new_MCPClient ''excel-mcp'' :: nat MCPClient)\<lparr>isConnected := True\<rparr>)
        ([], [], []))) = map (prefixed ''excel-mcp'') getExcelMCPServerTools"
  using listTools_absorbs_failure [of "''columbia-lake-agents''" "RequestTimeout ''columbia-lake-agents''"
      "RequestTimeout ''columbia-lake-agents''" "Rejected (RequestTimeout ''columbia-lake-agents'')"
      "Rejected (RequestTimeout ''columbia-lake-agents'')"
      "(new_MCPClient ''columbia-lake-agents'' :: nat MCPClient)\<lparr>isConnected := True\<rparr>"
      "\<lambda>s. Inr []" "[]" "[]" "[]"]
    listTools_absorbs_failure [of "''excel-mcp''" "RequestTimeout ''excel-mcp''"
      "RequestTimeout ''excel-mcp''" "Rejected (RequestTimeout ''excel-mcp'')"
      "Rejected (RequestTimeout ''excel-mcp'')"
      "(new_MCPClient ''excel-mcp'' :: nat MCPClient)\<lparr>isConnected := True\<rparr>"
      "\<lambda>s. Inr []" "[]" "[]" "[]"]
  by (simp add: getConnectionStatus_def new_MCPClient_def listTools_def)

text \<open>
  The claim C9 as stated, that the empty list is returned exactly for the server known to
  lack discovery, fails for \<^verbatim>\<open>firecrawl\<close>.
\<close>

theorem listTools_absorbs_failure_counterexample:
  "listTools ''firecrawl'' (Rejected (RequestTimeout ''firecrawl''))
       (Rejected (RequestTimeout ''firecrawl'')) = Inr []
   \<and> ''firecrawl'' \<noteq> ''excel-mcp''"
  by (simp add: listTools_def)

section \<open>Properties of the dispatcher\<close>

lemma str_includes_single: "str_includes s [c] \<longleftrightarrow> c \<in> set s"
  by (induction s) auto

lemma split_nonempty: "split c s \<noteq> []"
  by (induction s) (auto split: list.splits)

lemma split_head: "split c s = p # ps \<Longrightarrow> p = takeWhile (\<lambda>x. x \<noteq> c) s"
  using split_nonempty by (induction s arbitrary: p ps) (auto split: list.splits if_splits)

lemma join_Cons: "ps \<noteq> [] \<Longrightarrow> join sep (p # ps) = p @ sep @ join sep ps"
  by (cases ps) auto

lemma join_hd: "join sep ((a # p) # ps) = a # join sep (p # ps)"
  by (cases ps) auto

lemma join_split: "join [c] (split c s) = s"
  using split_nonempty by (induction s) (auto split: list.splits simp: join_Cons join_hd)

text \<open>
  What \<^verbatim>\<open>executeTool\<close> takes for the tool name is everything after the first separator.
\<close>

lemma split_tail:
  "join [c] (drop 1 (split c s)) = drop (Suc (length (takeWhile (\<lambda>x. x \<noteq> c) s))) s"
proof (induction s)
  case Nil
  then show ?case by simp
next
  case (Cons a s)
  show ?case
  proof (cases "a = c")
    case True
    then show ?thesis by (simp add: join_split)
  next
    case False
    then obtain p ps where sp: "split c s = p # ps"
      using split_nonempty [of c s] by (cases "split c s") auto
    with False Cons show ?thesis by simp
  qed
qed

lemma executeTool_server:
  "executeTool toolName args m =
     (let server = takeWhile (\<lambda>x. x \<noteq> CHR ''_'') toolName;
          actualToolName = drop (Suc (length server)) toolName
      in case map_of (clients m) server of
           None \<Rightarrow> Inl (UnknownServer server)
         | Some client \<Rightarrow>
             if \<not> getConnectionStatus client then Inl (ServerNotConnected server)
             else if server = ''excel-mcp'' then
               (if actualToolName = ''search_excel_files'' then Inr (ExcelSearchFallback args)
                else if actualToolName = ''get_common_excel_locations'' then Inr ExcelLocationsFallback
                else if actualToolName = ''read_data_from_excel'' then Inr (ExcelReadFallback args)
                else if actualToolName = ''get_workbook_metadata'' then Inr (ExcelMetadataFallback args)
                else Inl (FallbackNotImplemented actualToolName))
             else Inr (CallTool server actualToolName args))"
proof -
  obtain p ps where sp: "split CHR ''_'' toolName = p # ps"
    using split_nonempty [of "CHR ''_''" toolName] by (cases "split CHR ''_'' toolName") auto
  have p: "p = takeWhile (\<lambda>x. x \<noteq> CHR ''_'') toolName"
    using sp by (rule split_head)
  have t: "join ''_'' (drop 1 (split CHR ''_'' toolName))
             = drop (Suc (length (takeWhile (\<lambda>x. x \<noteq> CHR ''_'') toolName))) toolName"
    by (rule split_tail)
  show ?thesis
    unfolding executeTool_def Let_def t unfolding sp p by (simp split: option.split)
qed

text \<open>
  C5. \<^verbatim>\<open>executeTool\<close> takes the text before the first \<^verbatim>\<open>_\<close> of the tool name for the
  server name. If no wrapper is registered under it, the call fails with the unknown-server
  error; if one is registered and reports that it is not connected, the call fails with
  the not-connected error. In both cases the outcome is the error alone: neither
  \<^verbatim>\<open>callTool\<close> of a wrapper nor a local fallback is reached, so nothing is written to a
  child process.
\<close>

theorem executeTool_rejects:
  "(map_of (clients m) (takeWhile (\<lambda>x. x \<noteq> CHR ''_'') toolName) = None \<longrightarrow>
      executeTool toolName args m
        = Inl (UnknownServer (takeWhile (\<lambda>x. x \<noteq> CHR ''_'') toolName)))
   \<and> (\<forall>client.
        map_of (clients m) (takeWhile (\<lambda>x. x \<noteq> CHR ''_'') toolName) = Some client
        \<and> \<not> getConnectionStatus client \<longrightarrow>
        executeTool toolName args m
          = Inl (ServerNotConnected (takeWhile (\<lambda>x. x \<noteq> CHR ''_'') toolName)))"
  by (simp add: executeTool_server)

theorem executeTool_rejects_witness:
  "map_of (clients (loadConfiguration :: nat MultiMCPClient))
       (takeWhile (\<lambda>x. x \<noteq> CHR ''_'') ''unknownserver_foo'') = None
   \<and> executeTool ''unknownserver_foo'' (JObj []) (loadConfiguration :: nat MultiMCPClient)
       = Inl (UnknownServer ''unknownserver'')
   \<and> map_of (clients (loadConfiguration :: nat MultiMCPClient))
       (takeWhile (\<lambda>x. x \<noteq> CHR ''_'') ''firecrawl_foo'') = Some (new_MCPClient ''firecrawl'')
   \<and> \<not> getConnectionStatus (new_MCPClient ''firecrawl'' :: nat MCPClient)
   \<and> executeTool ''firecrawl_foo'' (JObj []) (loadConfiguration :: nat MultiMCPClient)
       = Inl (ServerNotConnected ''firecrawl'')"
  using executeTool_rejects [of "loadConfiguration :: nat MultiMCPClient" "''unknownserver_foo''" "JObj []"]
    executeTool_rejects [of "loadConfiguration :: nat MultiMCPClient" "''firecrawl_foo''" "JObj []"]
  by (simp add: loadConfiguration_def new_MCPClient_def getConnectionStatus_def)

text \<open>
  C10. \<^verbatim>\<open>executeMCPTool\<close> sends a tool name without \<^verbatim>\<open>_\<close> to the singleton Firecrawl
  client and never to the aggregator: it calls \<^verbatim>\<open>connect\<close> and, once that has resolved,
  \<^verbatim>\<open>callTool\<close> with the name as it came. A name with at least one \<^verbatim>\<open>_\<close> goes to
  \<^verbatim>\<open>MultiMCPClient.executeTool\<close> and nowhere else.
\<close>

theorem executeMCPTool_routes:
  "(CHR ''_'' \<notin> set toolName \<longrightarrow>
      executeMCPTool m connected toolName args
        = FirecrawlConnect # (if connected then [FirecrawlCallTool toolName args] else []))
   \<and> (CHR ''_'' \<in> set toolName \<longrightarrow>
      executeMCPTool m connected toolName args = [MultiExecuteTool (executeTool toolName args m)])"
  by (simp add: executeMCPTool_def str_includes_single)

theorem executeMCPTool_routes_witness:
  "CHR ''_'' \<notin> set ''scrape''
   \<and> executeMCPTool (loadConfiguration :: nat MultiMCPClient) True ''scrape'' (JObj [])
       = [FirecrawlConnect, FirecrawlCallTool ''scrape'' (JObj [])]
   \<and> CHR ''_'' \<in> set ''firecrawl_scrape''
   \<and> executeMCPTool (loadConfiguration :: nat MultiMCPClient) True ''firecrawl_scrape'' (JObj [])
       = [MultiExecuteTool (Inl (ServerNotConnected ''firecrawl''))]"
  using executeMCPTool_routes [of "''scrape''" "loadConfiguration :: nat MultiMCPClient" True "JObj []"]
    executeMCPTool_routes [of "''firecrawl_scrape''" "loadConfiguration :: nat MultiMCPClient" True "JObj []"]
  by (simp add: executeTool_server loadConfiguration_def new_MCPClient_def getConnectionStatus_def)

section \<open>Properties of the wrappers\<close>

lemma indexOf_less: "indexOf xs c = Some n \<Longrightarrow> n < length xs"
  by (induction xs arbitrary: n) (auto split: if_splits)

lemma emit_fields [simp]:
  "pendingRequests (emit es w) = pendingRequests w"
  "requestId (emit es w) = requestId w"
  "process (emit es w) = process w"
  "isConnected (emit es w) = isConnected w"
  "serverName (emit es w) = serverName w"
  "children (emit es w) = children w"
  "timers (emit es w) = timers w"
  "effects (emit es w) = effects w @ es"
  by (simp_all add: emit_def)

lemma js_succ_below: "n < 2 ^ 53 \<Longrightarrow> js_succ n = Suc n"
  by (simp add: js_succ_def)

lemma js_succ_small: "n < 100 \<Longrightarrow> js_succ n = Suc n"
proof -
  assume "n < 100"
  moreover have "(100::nat) < 2 ^ 53" by simp
  ultimately have "n < 2 ^ 53" by (rule less_trans)
  then show ?thesis by (rule js_succ_below)
qed

lemma pending_key_nat [simp]: "pending_key (Some (JNum (int i))) = Some i"
  by simp

lemma boot_fields [simp]:
  "serverName (boot n) = n" "process (boot n) = None" "isConnected (boot n) = False"
  "requestId (boot n) = 1" "pendingRequests (boot n) = Map.empty" "children (boot n) = []"
  "timers (boot n) = []" "effects (boot n) = []"
  by (simp_all add: boot_def new_MCPClient_def MCPClient.extend_def)

lemma connect_boot [simp]:
  "process (connect k (boot n)) = Some 0" "requestId (connect k (boot n)) = 1"
  "pendingRequests (connect k (boot n)) = Map.empty" "effects (connect k (boot n)) = [Spawn 0]"
  "serverName (connect k (boot n)) = n" "isConnected (connect k (boot n)) = False"
  by (simp_all add: connect_def setupMessageHandling_def at_child_def Let_def)

text \<open>
  C8, as the code has it. A message that is not \<^verbatim>\<open>null\<close> and whose \<^verbatim>\<open>id\<close> is no key of
  the pending map leaves \<^verbatim>\<open>handleMessage\<close> without an exception; the pending map, the
  request counter, the process, the children and the timers are as before and no
  continuation is called. In \<^verbatim>\<open>MCPClient\<close> the connection flag is set when the message
  has the method \<^verbatim>\<open>initialize\<close> or a result with a truthy \<^verbatim>\<open>serverInfo\<close>, and kept
  otherwise; in \<^verbatim>\<open>FirecrawlMCPClient\<close> nothing changes at all.
\<close>

theorem handleMessage_unmatched:
  assumes "field message ''id'' = Some mid" and "\<not> has_pending (pendingRequests w) mid"
  shows "snd (handleMessage message w) = None
    \<and> pendingRequests (fst (handleMessage message w)) = pendingRequests w
    \<and> requestId (fst (handleMessage message w)) = requestId w
    \<and> process (fst (handleMessage message w)) = process w
    \<and> children (fst (handleMessage message w)) = children w
    \<and> timers (fst (handleMessage message w)) = timers w
    \<and> effects (fst (handleMessage message w)) = effects w @ [Received message]
    \<and> isConnected (fst (handleMessage message w)) = (isConnected w \<or> announces_server message)
    \<and> firecrawl_handleMessage message w = (w, None)"
  using assms by (simp add: handleMessage_def firecrawl_handleMessage_def Let_def)

theorem handleMessage_unmatched_witness:
  "field (JObj [(''jsonrpc'', JStr ''2.0''), (''id'', JNum 7), (''result'', JObj [])]) ''id''
     = Some (Some (JNum 7))
   \<and> \<not> has_pending (pendingRequests (boot ''firecrawl'' :: nat runtime)) (Some (JNum 7))
   \<and> isConnected (fst (handleMessage
         (JObj [(''jsonrpc'', JStr ''2.0''), (''id'', JNum 7), (''result'', JObj [])])
         (boot ''firecrawl'' :: nat runtime))) = False
   \<and> effects (fst (handleMessage
         (JObj [(''jsonrpc'', JStr ''2.0''), (''id'', JNum 7), (''result'', JObj [])])
         (boot ''firecrawl'' :: nat runtime)))
       = [Received (JObj [(''jsonrpc'', JStr ''2.0''), (''id'', JNum 7), (''result'', JObj [])])]"
  using handleMessage_unmatched [of "JObj [(''jsonrpc'', JStr ''2.0''), (''id'', JNum 7), (''result'', JObj [])]"
      "Some (JNum 7)" "boot ''firecrawl'' :: nat runtime"]
  by (simp add: has_pending_def boot_def new_MCPClient_def MCPClient.extend_def announces_server_def)

text \<open>
  The claim C8 as stated fails in \<^verbatim>\<open>MCPClient\<close>: the answer to the \<^verbatim>\<open>initialize\<close>
  request, whose identifier was never registered, turns the connection flag on. The
  message \<^verbatim>\<open>null\<close> raises.
\<close>

theorem handleMessage_unmatched_counterexample:
  "\<not> has_pending
        (pendingRequests (run (\<lambda>t. None) [Connect 0, Fire (InitializeTimer 0)] (boot ''firecrawl'' :: nat runtime)))
        (Some (JNum 1))
   \<and> \<not> isConnected (run (\<lambda>t. None) [Connect 0, Fire (InitializeTimer 0)] (boot ''firecrawl'' :: nat runtime))
   \<and> isConnected (fst (handleMessage
         (JObj [(''jsonrpc'', JStr ''2.0''), (''id'', JNum 1),
                (''result'', JObj [(''serverInfo'', JObj [(''name'', JStr ''firecrawl'')])])])
         (run (\<lambda>t. None) [Connect 0, Fire (InitializeTimer 0)] (boot ''firecrawl'' :: nat runtime))))
   \<and> snd (handleMessage JNull (boot ''firecrawl'' :: nat runtime)) = Some TypeError"
  by (simp add: run_def has_pending_def boot_def new_MCPClient_def MCPClient.extend_def
      announces_server_def connect_def setupMessageHandling_def at_child_def initialize_timer_def
      handleMessage_def Let_def js_succ_small)



lemma connect_children:
  "\<not> isConnected w \<Longrightarrow>
   children (connect k w)
     = children w @ [\<lparr>initialized = False, connecting = k, codecs = [[]], exited = False\<rparr>]"
  by (simp add: connect_def setupMessageHandling_def at_child_def Let_def emit_def)

lemma firecrawl_connect_children:
  "\<not> isConnected w \<Longrightarrow>
   children (firecrawl_connect k w)
     = children w @ [\<lparr>initialized = False, connecting = k, codecs = [], exited = False\<rparr>]"
  by (simp add: firecrawl_connect_def Let_def emit_def)

lemma live_children: "children w' = children w @ [c] \<Longrightarrow> \<not> exited c \<Longrightarrow>
    live w' = live w @ [length (children w)]"
  by (auto simp: live_def nth_append intro!: filter_cong)

text \<open>
  C6, as the code has it. \<^verbatim>\<open>connect\<close> on a connected wrapper spawns nothing and only
  resolves. On a wrapper that is not connected it spawns a new child and makes it the
  current process, whatever earlier children are still running: the guard reads
  \<^verbatim>\<open>isConnected\<close> alone, which an attempt in flight has not set.
\<close>

theorem connect_spawns:
  "(isConnected w \<longrightarrow>
      connect k w = emit [Resolve k None] w \<and> firecrawl_connect k w = emit [Resolve k None] w)
   \<and> (\<not> isConnected w \<longrightarrow>
        effects (connect k w) = effects w @ [Spawn (length (children w))]
        \<and> process (connect k w) = Some (length (children w))
        \<and> live (connect k w) = live w @ [length (children w)]
        \<and> effects (firecrawl_connect k w) = effects w @ [Spawn (length (children w))]
        \<and> process (firecrawl_connect k w) = Some (length (children w))
        \<and> live (firecrawl_connect k w) = live w @ [length (children w)])"
proof -
  have "\<not> isConnected w \<Longrightarrow> live (connect k w) = live w @ [length (children w)]"
    by (rule live_children [OF connect_children]) simp_all
  moreover have "\<not> isConnected w \<Longrightarrow> live (firecrawl_connect k w) = live w @ [length (children w)]"
    by (rule live_children [OF firecrawl_connect_children]) simp_all
  ultimately show ?thesis
    by (simp add: connect_def firecrawl_connect_def setupMessageHandling_def at_child_def Let_def)
qed

theorem connect_spawns_witness:
  "\<not> isConnected (boot ''firecrawl'' :: nat runtime)
   \<and> effects (connect 0 (boot ''firecrawl'' :: nat runtime)) = [Spawn 0]
   \<and> live (connect 0 (boot ''firecrawl'' :: nat runtime)) = [0]
   \<and> isConnected ((connect 0 (boot ''firecrawl'' :: nat runtime))\<lparr>isConnected := True\<rparr>)
   \<and> effects (connect 1 ((connect 0 (boot ''firecrawl'' :: nat runtime))\<lparr>isConnected := True\<rparr>))
       = [Spawn 0, Resolve 1 None]"
  using connect_spawns [of "boot ''firecrawl'' :: nat runtime" 0]
    connect_spawns [of "(connect 0 (boot ''firecrawl'' :: nat runtime))\<lparr>isConnected := True\<rparr>" 1]
  by (simp add: live_def)

text \<open>
  The claim C6 as stated fails: a second \<^verbatim>\<open>connect\<close> while the first attempt is in flight
  spawns a second child, and both are alive.
\<close>

theorem connect_spawns_counterexample:
  "\<not> isConnected (connect 0 (boot ''firecrawl'' :: nat runtime))
   \<and> map initialized (children (connect 0 (boot ''firecrawl'' :: nat runtime))) = [False]
   \<and> effects (run (\<lambda>t. None) [Connect 0, Connect 1] (boot ''firecrawl'' :: nat runtime))
       = [Spawn 0, Spawn 1]
   \<and> live (run (\<lambda>t. None) [Connect 0, Connect 1] (boot ''firecrawl'' :: nat runtime)) = [0, 1]
   \<and> effects (firecrawl_connect 1 (firecrawl_connect 0 (boot ''firecrawl'' :: nat runtime)))
       = [Spawn 0, Spawn 1]
   \<and> live (firecrawl_connect 1 (firecrawl_connect 0 (boot ''firecrawl'' :: nat runtime))) = [0, 1]"
  by (simp add: run_def connect_def firecrawl_connect_def setupMessageHandling_def at_child_def
      Let_def live_def emit_def upt_rec)

subsection \<open>Request identifiers\<close>

lemma allocated_append [simp]: "allocated (es @ es') = allocated es @ allocated es'"
  by (simp add: allocated_def)

lemma allocated_Nil [simp]: "allocated [] = []"
  and allocated_Cons [simp]: "allocated (e # es) = written e @ allocated es"
  by (simp_all add: allocated_def)

lemma unallocating_refl [simp]: "unallocating w w"
  by (simp add: unallocating_def)

lemma unallocating_trans: "unallocating w w' \<Longrightarrow> unallocating w' w'' \<Longrightarrow> unallocating w w''"
  by (simp add: unallocating_def)

lemma at_child_fields [simp]:
  "pendingRequests (at_child p f w) = pendingRequests w"
  "requestId (at_child p f w) = requestId w"
  "process (at_child p f w) = process w"
  "isConnected (at_child p f w) = isConnected w"
  "serverName (at_child p f w) = serverName w"
  "timers (at_child p f w) = timers w"
  "effects (at_child p f w) = effects w"
  "length (children (at_child p f w)) = length (children w)"
  by (simp_all add: at_child_def)

lemma setup_fields [simp]:
  "pendingRequests (setupMessageHandling w) = pendingRequests w"
  "requestId (setupMessageHandling w) = requestId w"
  "process (setupMessageHandling w) = process w"
  "isConnected (setupMessageHandling w) = isConnected w"
  "serverName (setupMessageHandling w) = serverName w"
  "timers (setupMessageHandling w) = timers w"
  "effects (setupMessageHandling w) = effects w"
  "length (children (setupMessageHandling w)) = length (children w)"
  by (simp_all add: setupMessageHandling_def split: option.splits)

lemma handleMessage_unallocating: "unallocating w (fst (handleMessage message w))"
  by (auto simp: handleMessage_def unallocating_def Let_def split: option.splits if_splits)


lemma emit_unallocating: "allocated es = [] \<Longrightarrow> unallocating w (emit es w)"
  by (simp add: unallocating_def)

lemma deliver_unallocating:
  assumes "\<And>message. unallocating w (fst (handle message w))"
  shows "unallocating w
     (if line \<noteq> [] then
        (case parse line of
           None \<Rightarrow> emit [ParseFailed line] w
         | Some message \<Rightarrow>
             (case handle message w of
                (w1, None) \<Rightarrow> w1
              | (w1, Some e) \<Rightarrow> emit [ParseFailed line] w1))
      else w)"
proof (cases "line \<noteq> []")
  case False
  then show ?thesis by simp
next
  case True
  show ?thesis
  proof (cases "parse line")
    case None
    with True show ?thesis by (simp add: emit_unallocating)
  next
    case (Some message)
    obtain w1 r where h: "handle message w = (w1, r)" by (cases "handle message w")
    have u: "unallocating w w1" using assms [of message] by (simp add: h)
    show ?thesis
    proof (cases r)
      case None
      with True Some h u show ?thesis by simp
    next
      case (Some e)
      have "unallocating w1 (emit [ParseFailed line] w1)" by (simp add: emit_unallocating)
      with u have "unallocating w (emit [ParseFailed line] w1)" by (rule unallocating_trans)
      with True \<open>parse line = Some message\<close> h Some show ?thesis by simp
    qed
  qed
qed

lemma drain_unallocating: "unallocating w (snd (drain parse buffer w))"
proof (induction parse buffer w rule: drain.induct)
  case (1 parse buffer w)
  show ?case
  proof (cases "indexOf buffer 0x0A")
    case None
    then show ?thesis by (subst drain.simps) simp
  next
    case (Some n)
    let ?line = "trim (take n buffer)"
    let ?v = "(if ?line \<noteq> [] then
                      (case parse ?line of
                         None \<Rightarrow> emit [ParseFailed ?line] w
                       | Some message \<Rightarrow>
                           (case handleMessage message w of
                              (w1, None) \<Rightarrow> w1
                            | (w1, Some e) \<Rightarrow> emit [ParseFailed ?line] w1))
                    else w)"
    have a: "unallocating w ?v"
      by (rule deliver_unallocating) (rule handleMessage_unallocating)
    have b: "unallocating ?v (snd (drain parse (drop (n + 1) buffer) ?v))"
      using "1.IH" [OF Some refl refl refl] .
    have "drain parse buffer w = drain parse (drop (n + 1) buffer) ?v"
      using Some by (subst drain.simps) (simp add: Let_def)
    with unallocating_trans [OF a b] show ?thesis by simp
  qed
qed


lemma at_child_unallocating: "unallocating w (at_child p f w)"
  by (simp add: unallocating_def)

lemma codec_data_unallocating: "unallocating w (codec_data parse p i data w)"
proof -
  obtain b v where d: "drain parse (codecs (children w ! p) ! i @ toString data) w = (b, v)"
    by (cases "drain parse (codecs (children w ! p) ! i @ toString data) w")
  have "unallocating w v" using drain_unallocating [of w parse "codecs (children w ! p) ! i @ toString data"]
    by (simp add: d)
  then have "unallocating w (at_child p (\<lambda>c. c\<lparr>codecs := (codecs c)[i := b]\<rparr>) v)"
    by (rule unallocating_trans) (rule at_child_unallocating)
  then show ?thesis by (simp add: codec_data_def d)
qed


lemma fold_unallocating:
  "(\<And>i v. unallocating v (f i v)) \<Longrightarrow> unallocating w (fold f is w)"
proof (induction "is" arbitrary: w)
  case Nil
  then show ?case by simp
next
  case (Cons i "is")
  have "unallocating w (f i w)" by (rule Cons.prems)
  moreover have "unallocating (f i w) (fold f is (f i w))" by (rule Cons.IH) (rule Cons.prems)
  ultimately show ?case by (simp add: unallocating_trans)
qed

lemma marker_data_unallocating: "unallocating w (marker_data p data w)"
  by (simp add: marker_data_def unallocating_def Let_def)


lemma stdout_data_unallocating: "unallocating w (stdout_data parse p data w)"
proof (cases "p < length (children w)")
  case True
  have "unallocating (marker_data p data w)
          (fold (\<lambda>i. codec_data parse p i data) [0..<length (codecs (children w ! p))]
             (marker_data p data w))"
    by (rule fold_unallocating) (rule codec_data_unallocating)
  with marker_data_unallocating [of w p data] have "unallocating w
          (fold (\<lambda>i. codec_data parse p i data) [0..<length (codecs (children w ! p))]
             (marker_data p data w))"
    by (rule unallocating_trans)
  with True show ?thesis by (simp add: stdout_data_def)
next
  case False
  then show ?thesis by (simp add: stdout_data_def)
qed


lemma quiet_methods:
  "unallocating w (connect k w)" "unallocating w (firecrawl_connect k w)"
  "unallocating w (disconnect w)" "unallocating w (process_error p w)"
  "unallocating w (process_close p w)" "unallocating w (stdio_timer p w)"
  "unallocating w (start_timeout p w)" "unallocating w (firecrawl_start_timeout p w)"
  "unallocating w (request_timer i k w)" "unallocating w (firecrawl_request_timer i k w)"
  by (simp_all add: unallocating_def connect_def firecrawl_connect_def disconnect_def
      process_error_def process_close_def stdio_timer_def start_timeout_def
      firecrawl_start_timeout_def request_timer_def firecrawl_request_timer_def Let_def
      split: option.splits)

lemma js_succ_ge: "n \<le> js_succ n"
  by (simp add: js_succ_def)











lemma unallocating_mono: "unallocating w w' \<Longrightarrow> requestId w \<le> requestId w'"
  by (simp add: unallocating_def)

lemma fire_mono: "requestId w \<le> requestId (fire t w)"
  using quiet_methods(6,7,9) [THEN unallocating_mono]
  by (cases t) (auto simp: initialize_timer_def Let_def js_succ_ge split: option.splits)

lemma step_mono: "requestId w \<le> requestId (step parse ev w)"
proof (cases ev)
  case (Fire t)
  then show ?thesis using fire_mono [of "w\<lparr>timers := remove1 t (timers w)\<rparr>" t] by simp
next
  case (SendRequest k meth params)
  then show ?thesis by (simp add: sendRequest_def Let_def js_succ_ge split: option.splits)
qed (auto intro!: unallocating_mono quiet_methods marker_data_unallocating stdout_data_unallocating)














text \<open>
  An entry of the pending map stays until a response matches it, its timer goes off or the
  wrapper is disconnected.
\<close>

lemma fire_kept:
  "pendingRequests w i = Some k \<Longrightarrow> undisturbed i (Fire t) \<Longrightarrow>
   pendingRequests (fire t w) i = Some k"
  by (cases t)
    (auto simp: initialize_timer_def stdio_timer_def start_timeout_def request_timer_def Let_def
      split: option.splits)

lemma pending_kept:
  assumes "pendingRequests w i = Some k" and "i < requestId w" and "undisturbed i ev"
  shows "pendingRequests (step parse ev w) i = Some k \<and> i < requestId (step parse ev w)"
proof -
  have "i < requestId (step parse ev w)"
    using assms(2) step_mono [of w parse ev] by simp
  moreover have "pendingRequests (step parse ev w) i = Some k"
  proof (cases ev)
    case (Fire t)
    with assms(1,3) fire_kept [of "w\<lparr>timers := remove1 t (timers w)\<rparr>" i k t] show ?thesis
      by simp
  next
    case (SendRequest k' meth params)
    with assms(1,2) show ?thesis
      by (auto simp: sendRequest_def Let_def split: option.splits)
  qed (use assms in \<open>auto simp: connect_def marker_data_def process_error_def process_close_def
        Let_def\<close>)
  ultimately show ?thesis by simp
qed

lemma pending_kept_run:
  "pendingRequests w i = Some k \<Longrightarrow> i < requestId w \<Longrightarrow> \<forall>ev \<in> set evs. undisturbed i ev \<Longrightarrow>
   pendingRequests (run parse evs w) i = Some k"
proof (induction evs arbitrary: w)
  case Nil
  then show ?case by (simp add: run_def)
next
  case (Cons ev evs)
  have "pendingRequests (step parse ev w) i = Some k \<and> i < requestId (step parse ev w)"
    using Cons.prems by (intro pending_kept) simp_all
  then have "pendingRequests (run parse evs (step parse ev w)) i = Some k"
    using Cons.prems(3) by (intro Cons.IH) simp_all
  then show ?case by (simp add: run_def)
qed

subsection \<open>The line codec\<close>

lemma drain_none: "indexOf buffer 0x0A = None \<Longrightarrow> drain parse buffer w = (buffer, w)"
  by (subst drain.simps) simp

lemma drain_some:
  "indexOf buffer 0x0A = Some n \<Longrightarrow>
   drain parse buffer w = drain parse (drop (Suc n) buffer) (deliver parse (trim (take n buffer)) w)"
  by (subst drain.simps) (simp add: deliver_def Let_def)

lemma indexOf_append: "indexOf xs c = Some n \<Longrightarrow> indexOf (xs @ ys) c = Some n"
  by (induction xs arbitrary: n) (auto split: if_splits)

lemma indexOf_None: "indexOf xs c = None \<longleftrightarrow> c \<notin> set xs"
  by (induction xs) auto

lemma indexOf_line: "c \<notin> set l \<Longrightarrow> indexOf (l @ c # rest) c = Some (length l)"
  by (induction l) auto

lemma drain_append:
  "drain parse (buffer @ tail) w
     = (case drain parse buffer w of (rest, v) \<Rightarrow> drain parse (rest @ tail) v)"
proof (induction parse buffer w rule: drain.induct)
  case (1 parse buffer w)
  show ?case
  proof (cases "indexOf buffer 0x0A")
    case None
    then show ?thesis by (simp add: drain_none)
  next
    case (Some n)
    then have n: "n < length buffer" by (rule indexOf_less)
    have i: "indexOf (buffer @ tail) 0x0A = Some n" using Some by (rule indexOf_append)
    let ?v = "deliver parse (trim (take n buffer)) w"
    have "drain parse (drop (n + 1) buffer @ tail) ?v
            = (case drain parse (drop (n + 1) buffer) ?v of (rest, v) \<Rightarrow> drain parse (rest @ tail) v)"
      using "1.IH" [OF Some refl refl refl] by (simp add: deliver_def)
    then show ?thesis
      using n by (simp add: drain_some [OF Some] drain_some [OF i])
  qed
qed

lemma drain_rest: "0x0A \<notin> set (fst (drain parse buffer w))"
proof (induction parse buffer w rule: drain.induct)
  case (1 parse buffer w)
  show ?case
  proof (cases "indexOf buffer 0x0A")
    case None
    then show ?thesis by (simp add: drain_none indexOf_None)
  next
    case (Some n)
    show ?thesis
      using "1.IH" [OF Some refl refl refl] by (simp add: drain_some [OF Some] deliver_def)
  qed
qed

lemma fold_feed:
  "fold (feed parse) chunks (buffer, w) = drain parse (buffer @ concat (map toString chunks)) w"
  if "0x0A \<notin> set buffer"
  using that
proof (induction chunks arbitrary: buffer w)
  case Nil
  then show ?case by (simp add: drain_none indexOf_None)
next
  case (Cons c chunks)
  obtain rest v where d: "drain parse (buffer @ toString c) w = (rest, v)"
    by (cases "drain parse (buffer @ toString c) w")
  have r: "0x0A \<notin> set rest" using drain_rest [of parse "buffer @ toString c" w] by (simp add: d)
  have "fold (feed parse) (c # chunks) (buffer, w) = fold (feed parse) chunks (rest, v)"
    by (simp add: feed_def d)
  also have "\<dots> = drain parse (rest @ concat (map toString chunks)) v"
    using r by (rule Cons.IH)
  also have "\<dots> = drain parse ((buffer @ toString c) @ concat (map toString chunks)) w"
    using drain_append [of parse "buffer @ toString c" "concat (map toString chunks)" w]
    by (simp add: d)
  finally show ?case by simp
qed

lemma drain_lines:
  "\<forall>l \<in> set ls. 0x0A \<notin> set l \<Longrightarrow>
   drain parse (concat (map (\<lambda>l. l @ [0x0A]) ls)) w
     = ([], fold (deliver parse) (map trim ls) w)"
proof (induction ls arbitrary: w)
  case Nil
  then show ?case by (simp add: drain_none)
next
  case (Cons l ls)
  have i: "indexOf (l @ 0x0A # concat (map (\<lambda>l. l @ [0x0A]) ls)) 0x0A = Some (length l)"
    using Cons.prems by (simp add: indexOf_line)
  show ?case
    using Cons by (simp add: drain_some [OF i])
qed

lemma received_append [simp]: "received (es @ es') = received es @ received es'"
  by (simp add: received_def)

lemma received_simps [simp]:
  "received [] = []" "received (Received m # es) = m # received es"
  "received (Resolve k v # es) = received es" "received (Reject k e # es) = received es"
  "received (ParseFailed l # es) = received es"
  by (simp_all add: received_def)

lemma handleMessage_received:
  "received (effects (fst (handleMessage message w))) = received (effects w) @ [message]"
  by (auto simp: handleMessage_def Let_def split: option.splits)

lemma deliver_received:
  "received (effects (deliver parse line w)) = received (effects w) @ parsed parse line"
proof (cases "line = []")
  case True
  then show ?thesis by (simp add: deliver_def parsed_def)
next
  case False
  show ?thesis
  proof (cases "parse line")
    case None
    with False show ?thesis by (simp add: deliver_def parsed_def)
  next
    case (Some message)
    obtain w1 r where h: "handleMessage message w = (w1, r)" by (cases "handleMessage message w")
    have "received (effects w1) = received (effects w) @ [message]"
      using handleMessage_received [of message w] by (simp add: h)
    with False Some h show ?thesis
      by (cases r) (simp_all add: deliver_def parsed_def)
  qed
qed

lemma fold_deliver_received:
  "received (effects (fold (deliver parse) lines w))
     = received (effects w) @ concat (map (parsed parse) lines)"
  by (induction lines arbitrary: w) (simp_all add: deliver_received)

lemma codec_chunks:
  assumes "concat (map toString chunks) = concat (map (\<lambda>l. l @ [0x0A]) ls)"
    and "\<forall>l \<in> set ls. 0x0A \<notin> set l"
  shows "fold (feed parse) chunks ([], w) = ([], fold (deliver parse) (map trim ls) w)"
  using assms by (simp add: fold_feed drain_lines)

lemma codec_events:
  assumes "concat (map toString chunks) = concat (map (\<lambda>l. l @ [0x0A]) ls)"
    and "\<forall>l \<in> set ls. 0x0A \<notin> set l"
  shows "received (effects (snd (fold (feed parse) chunks ([], w))))
           = received (effects w) @ concat (map (parsed parse \<circ> trim) ls)"
  using codec_chunks [OF assms, of parse w] by (simp add: fold_deliver_received)

lemma codec_objects:
  assumes "concat (map toString chunks) = concat (map (\<lambda>l. l @ [0x0A]) ls)"
    and "\<forall>l \<in> set ls. 0x0A \<notin> set l \<and> trim l \<noteq> [] \<and> parse (trim l) = Some (obj l)"
  shows "received (effects (snd (fold (feed parse) chunks ([], w))))
           = received (effects w) @ map obj ls"
proof -
  have "concat (map (parsed parse \<circ> trim) ls) = map obj ls"
    using assms(2) by (induction ls) (simp_all add: parsed_def)
  with codec_events [OF assms(1), of parse w] assms(2) show ?thesis by simp
qed

lemma utf8_decode_ascii:
  "\<forall>b \<in> set bs. b < 0x80 \<Longrightarrow> utf8_decode (0, 0, 0x80, 0xBF) bs = map unat bs"
proof (induction bs)
  case Nil
  then show ?case by simp
next
  case (Cons b bs)
  then have "b < 0x80" by simp
  then have "unat b \<le> 0x7F" by (simp add: word_less_nat_alt)
  with Cons show ?case by simp
qed

lemma toString_ascii: "\<forall>b \<in> set bs. b < 0x80 \<Longrightarrow> toString bs = map ucast bs"
proof -
  assume a: "\<forall>b \<in> set bs. b < 0x80"
  have "\<And>b :: 8 word. utf16 (unat b) = [ucast b]"
  proof -
    fix b :: "8 word"
    have "unat b < 2 ^ 8" using unsigned_less [of b, where 'a = nat] by simp
    then have "unat b < 0x10000" by simp
    then show "utf16 (unat b) = [ucast b]" by (simp add: utf16_def)
  qed
  then show ?thesis
    using a by (simp add: toString_def utf8_decode_ascii comp_def)
qed

lemma toString_chunks_ascii:
  "\<forall>b \<in> set (concat chunks). b < 0x80 \<Longrightarrow>
   concat (map toString chunks) = map ucast (concat chunks)"
  by (induction chunks) (simp_all add: toString_ascii)

lemma codec_data_feed:
  "p < length (children w) \<Longrightarrow> i < length (codecs (children w ! p)) \<Longrightarrow>
   codec_data parse p i data w
     = (case feed parse data (codecs (children w ! p) ! i, w) of
          (buffer', w') \<Rightarrow> at_child p (\<lambda>c. c\<lparr>codecs := (codecs c)[i := buffer']\<rparr>) w')"
  by (simp add: codec_data_def feed_def)

lemma codec_ascii:
  assumes "\<forall>b \<in> set (concat chunks). b < 0x80"
    and "concat chunks = concat (map (\<lambda>l. l @ [0x0A]) ls)"
    and "\<forall>l \<in> set ls. 0x0A \<notin> set l"
  shows "fold (feed parse) chunks ([], w)
           = ([], fold (deliver parse) (map (\<lambda>l. trim (map ucast l)) ls) w)"
proof -
  have "concat (map toString chunks) = map ucast (concat (map (\<lambda>l. l @ [0x0A]) ls))"
    using toString_chunks_ascii [OF assms(1)] assms(2) by simp
  also have "\<dots> = concat (map (\<lambda>l. l @ [0x0A]) (map (map ucast) ls))"
    by (simp add: map_concat comp_def)
  finally have a: "concat (map toString chunks)
      = concat (map (\<lambda>l. l @ [0x0A]) (map (map ucast) ls :: jsstr list))" .
  have b: "\<forall>l \<in> set (map (map ucast) ls :: jsstr list). 0x0A \<notin> set l"
  proof
    fix l :: jsstr assume "l \<in> set (map (map ucast) ls)"
    then obtain l0 where l0: "l0 \<in> set ls" and l: "l = map ucast l0" by auto
    have "ucast (x :: 8 word) = (0x0A :: 16 word) \<Longrightarrow> x = 0x0A" for x
    proof -
      assume e: "ucast x = (0x0A :: 16 word)"
      have "(ucast (ucast x :: 16 word) :: 8 word) = x"
        by (rule ucast_up_ucast_id) (simp add: is_up)
      with e show "x = 0x0A" by simp
    qed
    with assms(3) l0 show "0x0A \<notin> set l" unfolding l by auto
  qed
  show ?thesis
    using codec_chunks [OF a b, of parse w] by (simp add: comp_def)
qed

text \<open>
  By \<open>codec_chunks\<close>, \<open>codec_events\<close> and \<open>codec_objects\<close> the codec depends on its
  input only through the concatenation of the decoded chunks: \<open>N\<close> lines that each hold
  an object give \<open>N\<close> calls of \<^verbatim>\<open>handleMessage\<close> with these objects in order, an empty
  line gives nothing, a line that does not parse gives a console line and the loop goes
  on. By \<open>codec_ascii\<close> this covers every way of cutting a stream of ASCII bytes.

  C1. It does not cover every way of cutting a stream of bytes. Each chunk is decoded on
  its own, so a chunk boundary inside a character of several bytes leaves two U+FFFD in
  the text where the stream has one character. The stream below is the line
  \<^verbatim>\<open>{"r":"e"}\<close> with U+00E9 for the letter, cut between the two bytes of U+00E9: fed
  in two chunks, the codec hands \<^verbatim>\<open>JSON.parse\<close> a text with two U+FFFD; fed in one
  chunk, the text of the stream.
\<close>

theorem codec_splits_character:
  "toString [0x7B, 0x22, 0x72, 0x22, 0x3A, 0x22, 0xC3] @ toString [0xA9, 0x22, 0x7D, 0x0A]
     = [0x7B, 0x22, 0x72, 0x22, 0x3A, 0x22, 0xFFFD, 0xFFFD, 0x22, 0x7D, 0x0A]
   \<and> toString ([0x7B, 0x22, 0x72, 0x22, 0x3A, 0x22, 0xC3] @ [0xA9, 0x22, 0x7D, 0x0A])
     = [0x7B, 0x22, 0x72, 0x22, 0x3A, 0x22, 0xE9, 0x22, 0x7D, 0x0A]
   \<and> (\<forall>parse w.
        fold (feed parse) [[0x7B, 0x22, 0x72, 0x22, 0x3A, 0x22, 0xC3], [0xA9, 0x22, 0x7D, 0x0A]]
          ([], w :: nat runtime)
        = ([], deliver parse [0x7B, 0x22, 0x72, 0x22, 0x3A, 0x22, 0xFFFD, 0xFFFD, 0x22, 0x7D] w))
   \<and> (\<forall>parse w.
        fold (feed parse) [[0x7B, 0x22, 0x72, 0x22, 0x3A, 0x22, 0xC3] @ [0xA9, 0x22, 0x7D, 0x0A]]
          ([], w :: nat runtime)
        = ([], deliver parse [0x7B, 0x22, 0x72, 0x22, 0x3A, 0x22, 0xE9, 0x22, 0x7D] w))"
proof -
  have a: "toString [0x7B, 0x22, 0x72, 0x22, 0x3A, 0x22, 0xC3]
      = [0x7B, 0x22, 0x72, 0x22, 0x3A, 0x22, 0xFFFD]"
    by (simp add: toString_def utf16_def)
  have b: "toString [0xA9, 0x22, 0x7D, 0x0A] = [0xFFFD, 0x22, 0x7D, 0x0A]"
    by (simp add: toString_def utf16_def)
  have c: "toString [0x7B, 0x22, 0x72, 0x22, 0x3A, 0x22, 0xC3, 0xA9, 0x22, 0x7D, 0x0A]
      = [0x7B, 0x22, 0x72, 0x22, 0x3A, 0x22, 0xE9, 0x22, 0x7D, 0x0A]"
    by (simp add: toString_def utf16_def)
  have t1: "trim [0x7B, 0x22, 0x72, 0x22, 0x3A, 0x22, 0xFFFD, 0xFFFD, 0x22, 0x7D]
      = [0x7B, 0x22, 0x72, 0x22, 0x3A, 0x22, 0xFFFD, 0xFFFD, 0x22, 0x7D]"
    by (simp add: trim_def js_space_def)
  have t2: "trim [0x7B, 0x22, 0x72, 0x22, 0x3A, 0x22, 0xE9, 0x22, 0x7D]
      = [0x7B, 0x22, 0x72, 0x22, 0x3A, 0x22, 0xE9, 0x22, 0x7D]"
    by (simp add: trim_def js_space_def)
  have d1: "fold (feed parse) [[0x7B, 0x22, 0x72, 0x22, 0x3A, 0x22, 0xC3], [0xA9, 0x22, 0x7D, 0x0A]]
          ([], w)
        = ([], deliver parse [0x7B, 0x22, 0x72, 0x22, 0x3A, 0x22, 0xFFFD, 0xFFFD, 0x22, 0x7D] w)"
    for parse and w :: "nat runtime"
    using codec_chunks [of "[[0x7B, 0x22, 0x72, 0x22, 0x3A, 0x22, 0xC3], [0xA9, 0x22, 0x7D, 0x0A]]"
        "[[0x7B, 0x22, 0x72, 0x22, 0x3A, 0x22, 0xFFFD, 0xFFFD, 0x22, 0x7D]]" parse w]
    by (simp add: a b t1)
  have d2: "fold (feed parse) [[0x7B, 0x22, 0x72, 0x22, 0x3A, 0x22, 0xC3] @ [0xA9, 0x22, 0x7D, 0x0A]]
          ([], w)
        = ([], deliver parse [0x7B, 0x22, 0x72, 0x22, 0x3A, 0x22, 0xE9, 0x22, 0x7D] w)"
    for parse and w :: "nat runtime"
    using codec_chunks [of "[[0x7B, 0x22, 0x72, 0x22, 0x3A, 0x22, 0xC3, 0xA9, 0x22, 0x7D, 0x0A]]"
        "[[0x7B, 0x22, 0x72, 0x22, 0x3A, 0x22, 0xE9, 0x22, 0x7D]]" parse w]
    by (simp add: c t2)
  show ?thesis
    using a b c d1 d2 by simp
qed

text \<open>
  A second listener: \<^verbatim>\<open>connect\<close> attaches a codec at once and each marker listener
  attaches another when the readiness marker arrives, so from then on every line of the
  child is handled by two codecs of the same wrapper.
\<close>

lemma marker_seen: "ready_marker (toString [0x69, 0x6E, 0x69, 0x74, 0x69, 0x61, 0x6C, 0x69, 0x7A, 0x65, 0x64])"
  by (simp add: ready_marker_def toString_def utf16_def js_def)

lemma second_codec:
  "map codecs (children (run parse
       [Connect k, Stderr 0 [0x69, 0x6E, 0x69, 0x74, 0x69, 0x61, 0x6C, 0x69, 0x7A, 0x65, 0x64]]
       (boot n)))
     = [[[], []]]"
  using marker_seen
  by (simp add: run_def connect_def marker_data_def setupMessageHandling_def at_child_def Let_def)

end
